theory Spec2Isabelle
  imports Main "HOL-Library.Sublist"
begin

section \<open>Strings\<close>

text \<open>
  A Python \<open>str\<close> is modelled as a \<open>string\<close>: a list of 8-bit characters, each read as
  the code point of the same number (U+0000 .. U+00FF).

  \<open>isspace\<close> is the whitespace test shared by \<open>str.strip()\<close> and by the class \<open>\s\<close> of a
  \<open>str\<close> pattern, restricted to that range: TAB, LF, VT, FF, CR, the separators
  0x1C .. 0x1F, SPACE, NEL (0x85) and NBSP (0xA0).
\<close>

definition isspace :: "char \<Rightarrow> bool" where
  "isspace c \<longleftrightarrow>
     c \<in> {CHR 0x09, CHR 0x0A, CHR 0x0B, CHR 0x0C, CHR 0x0D,
          CHR 0x1C, CHR 0x1D, CHR 0x1E, CHR 0x1F, CHR 0x20, CHR 0x85, CHR 0xA0}"

text \<open>\<open>s.strip()\<close>: whitespace removed at both ends.\<close>

definition strip :: "string \<Rightarrow> string" where
  "strip s = dropWhile isspace (rev (dropWhile isspace (rev s)))"

text \<open>\<open>s.rstrip('/')\<close>: every trailing slash removed.\<close>

definition rstrip_slash :: "string \<Rightarrow> string" where
  "rstrip_slash s = rev (dropWhile (\<lambda>c. c = CHR ''/'') (rev s))"

text \<open>
  \<open>re.split(r'\s+', s)\<close>: the pieces of \<open>s\<close> between the maximal runs of whitespace, in
  order. The text before the first run and the text after the last run are pieces too, also
  when they are empty, so the result is never the empty list: \<open>re.split(r'\s+', '')\<close> is
  \<open>['']\<close>.
\<close>

function re_split_ws :: "string \<Rightarrow> string list" where
  "re_split_ws s =
     (let piece = takeWhile (\<lambda>c. \<not> isspace c) s;
          rest = dropWhile (\<lambda>c. \<not> isspace c) s
      in if rest = [] then [piece] else piece # re_split_ws (dropWhile isspace rest))"
  by pat_completeness auto
termination
proof (relation "measure length")
  fix s piece rest
  assume rest: "rest = dropWhile (\<lambda>c. \<not> isspace c) s" and ne: "rest \<noteq> []"
  from ne obtain c cs where r: "rest = c # cs" by (cases rest) auto
  have "length (dropWhile isspace rest) \<le> length rest"
    by (rule length_dropWhile_le)
  moreover have "isspace c"
    using rest r by (metis dropWhile_eq_Cons_conv)
  then have "dropWhile isspace rest = dropWhile isspace cs" by (simp add: r)
  moreover have "length (dropWhile isspace cs) \<le> length cs" by (rule length_dropWhile_le)
  moreover have "length rest \<le> length s" unfolding rest by (rule length_dropWhile_le)
  ultimately show "(dropWhile isspace rest, s) \<in> measure length" by (simp add: r)
qed simp

declare re_split_ws.simps [simp del]

text \<open>\<open>sep.join(xs)\<close>.\<close>

fun join :: "string \<Rightarrow> string list \<Rightarrow> string" where
  "join sep [] = []"
| "join sep [x] = x"
| "join sep (x # y # ys) = x @ sep @ join sep (y # ys)"

section \<open>Exceptions, processes and the outside world\<close>

text \<open>
  The exceptions that can leave a method of class \<open>Git\<close>. \<open>CalledProcessError\<close> carries
  what \<open>subprocess\<close> puts into it: exit code, command, captured standard output and captured
  standard error. \<open>OtherSubprocessError\<close> stands for every other exception of
  \<open>subprocess.run\<close> (the program cannot be started, its output cannot be decoded).
  \<open>ReError\<close> is \<open>re.error\<close>; \<open>MalformedLogRecord\<close> is what a parser raises, with the
  offending text.
\<close>

datatype exn =
    NotADirectoryError string
  | AttributeError
  | TypeError
  | GitBinaryNotFoundError
  | NotARepositoryError string
  | CalledProcessError int "string list" string string
  | OtherSubprocessError string
  | ReError
  | MalformedLogRecord string

text \<open>\<open>subprocess.CompletedProcess\<close>, with the output captured as text.\<close>

record completed_process =
  args :: "string list"
  returncode :: int
  stdout :: string
  stderr :: string

text \<open>What the operating system answers when asked to run a command to its end.\<close>

datatype spawn_result =
    Exited int string string
  | Not_run string

text \<open>One request to the operating system: the token list and the child's environment.\<close>

type_synonym invocation = "string list \<times> (string \<times> string) list"

text \<open>
  Everything class \<open>Git\<close> calls and does not define is a field of the record below: the
  file system and the caller's environment, the operating system's answer to a command (which
  may depend on the requests made before: a repository changes between two calls), the
  regular-expression module, and the two parsers.

  \<open>re.search(p, x)\<close> compiles \<open>p\<close> (\<open>None\<close>: \<open>re.error\<close> is raised) and searches \<open>x\<close>
  with the compiled pattern.
\<close>

text \<open>
  Modelled from the spec: \<open>GitLogParser.extract_commits\<close>, \<open>GitBranchParser.extract_branches\<close>
  and class \<open>Commit\<close> are not part of the sources at hand. The parsers are taken as pure
  functions of the text (section 5), which return the records or fail with
  \<open>MalformedLogRecord\<close> (section 7); a commit is a value of any type \<open>'c\<close>.
\<close>

record ('rx, 'c) collaborators =
  environ :: "(string \<times> string) list"
  isdir :: "string \<Rightarrow> bool"
  isfile :: "string \<Rightarrow> bool"
  which :: "(string \<times> string) list \<Rightarrow> string \<Rightarrow> string option"
  spawn :: "invocation list \<Rightarrow> string list \<Rightarrow> (string \<times> string) list \<Rightarrow> spawn_result"
  re_compile :: "string \<Rightarrow> 'rx option"
  re_search_compiled :: "'rx \<Rightarrow> string \<Rightarrow> bool"
  extract_commits :: "string \<Rightarrow> string + 'c list"
  extract_branches :: "string \<Rightarrow> string + string list"

text \<open>
  The effects of the program on the world: the requests made to the operating system, oldest
  first, and the texts given to \<open>print\<close>, oldest first.
\<close>

record world =
  spawned :: "invocation list"
  printed :: "string list"

text \<open>
  The attributes \<open>_binary_path_list\<close> and \<open>_directory\<close> of a \<open>Git\<close> object; each can be
  \<open>None\<close>.
\<close>

record git =
  self_binary_path_list :: "string list option"
  self_directory :: "string option"

text \<open>A method takes the object and the world and returns its result and both, updated.\<close>

type_synonym 'a outcome = "(exn + 'a) \<times> git \<times> world"

section \<open>Class \<open>Git\<close>\<close>

definition COMMON_BINARY_PATHS :: "string list" where
  "COMMON_BINARY_PATHS = [''/bin'', ''/usr/bin'']"

text \<open>
  The loop of \<open>_build_binary_path_list\<close> over the path list, which stops at the first
  directory holding a file \<open>git\<close>; the result is the flag \<open>binary_shell_independent\<close>.
\<close>

fun binary_shell_independent :: "(string \<Rightarrow> bool) \<Rightarrow> string list \<Rightarrow> bool" where
  "binary_shell_independent is_file [] = False"
| "binary_shell_independent is_file (binary_path # rest) =
     (if is_file (rstrip_slash binary_path @ ''/git'') then True
      else binary_shell_independent is_file rest)"

text \<open>
  \<open>_build_binary_path_list\<close>. With a non-empty \<open>binary_path\<close> that is a directory the method
  calls \<open>self._binary_path_list.insert(index=0, object=binary_path)\<close>: on \<open>None\<close> that is
  an \<open>AttributeError\<close>, and on a list a \<open>TypeError\<close> (\<open>list.insert\<close> takes no keyword
  arguments).
\<close>

definition build_binary_path_list ::
  "('rx, 'c) collaborators \<Rightarrow> string \<Rightarrow> git \<Rightarrow> world \<Rightarrow> unit outcome" where
  "build_binary_path_list sys binary_path self w =
     (let binary_path_list = COMMON_BINARY_PATHS in
      if binary_path \<noteq> [] then
        (if \<not> isdir sys binary_path then (Inl (NotADirectoryError binary_path), self, w)
         else case self_binary_path_list self of
                None \<Rightarrow> (Inl AttributeError, self, w)
              | Some _ \<Rightarrow> (Inl TypeError, self, w))
      else if binary_shell_independent (isfile sys) binary_path_list then
        (Inr (), self\<lparr>self_binary_path_list := Some binary_path_list\<rparr>, w)
      else if which sys (environ sys) ''git'' = None then
        (Inl GitBinaryNotFoundError, self, w)
      else
        (Inr (), self\<lparr>self_binary_path_list := Some binary_path_list\<rparr>,
         w\<lparr>printed := printed w @
           [''WARNING: git binary depends on current environment variables!'']\<rparr>))"

text \<open>
  \<open>subprocess.run(argv, check=check, capture_output=True, universal_newlines=True, env=env)\<close>:
  one request to the operating system; with \<open>check\<close>, a non-zero exit code raises
  \<open>CalledProcessError\<close>.
\<close>

definition subprocess_run ::
  "('rx, 'c) collaborators \<Rightarrow> string list \<Rightarrow> bool \<Rightarrow> (string \<times> string) list \<Rightarrow> world \<Rightarrow>
     (exn + completed_process) \<times> world" where
  "subprocess_run sys argv check env w =
     (let w' = w\<lparr>spawned := spawned w @ [(argv, env)]\<rparr> in
      case spawn sys (spawned w) argv env of
        Not_run e \<Rightarrow> (Inl (OtherSubprocessError e), w')
      | Exited rc out err \<Rightarrow>
          if check \<and> rc \<noteq> 0 then (Inl (CalledProcessError rc argv out err), w')
          else (Inr \<lparr>args = argv, returncode = rc, stdout = out, stderr = err\<rparr>, w'))"

text \<open>
  \<open>run\<close>. Joining \<open>None\<close> and passing \<open>None\<close> as an argument are both a \<open>TypeError\<close>, raised
  before any process is started. A \<open>CalledProcessError\<close> is caught, its \<open>stderr\<close> printed,
  and the same exception raised again; any other exception passes through.
\<close>

definition run ::
  "('rx, 'c) collaborators \<Rightarrow> string \<Rightarrow> bool \<Rightarrow> git \<Rightarrow> world \<Rightarrow> completed_process outcome" where
  "run sys command check self w =
     (let command = re_split_ws (strip command) in
      case (self_directory self, self_binary_path_list self) of
        (Some d, Some paths) \<Rightarrow>
          (case subprocess_run sys ([''git'', ''-C'', d] @ command) check
                  [(''PATH'', join '':'' paths)] w of
             (Inl (CalledProcessError rc cmd out err), w') \<Rightarrow>
               (Inl (CalledProcessError rc cmd out err), self, w'\<lparr>printed := printed w' @ [err]\<rparr>)
           | (Inl e, w') \<Rightarrow> (Inl e, self, w')
           | (Inr p, w') \<Rightarrow> (Inr p, self, w'))
      | _ \<Rightarrow> (Inl TypeError, self, w))"

text \<open>\<open>_build_directory\<close>.\<close>

definition build_directory ::
  "('rx, 'c) collaborators \<Rightarrow> string \<Rightarrow> git \<Rightarrow> world \<Rightarrow> unit outcome" where
  "build_directory sys directory self w =
     (let directory = (if directory \<noteq> ''/'' then rstrip_slash directory else directory);
          self = self\<lparr>self_directory := Some directory\<rparr>
      in case run sys ''rev-parse --git-dir'' False self w of
           (Inl e, self, w) \<Rightarrow> (Inl e, self, w)
         | (Inr p, self, w) \<Rightarrow>
             if returncode p \<noteq> 0 then (Inl (NotARepositoryError directory), self, w)
             else (Inr (), self, w))"

text \<open>
  \<open>__init__\<close>: the constructor returns the new object, or raises and returns none. The two
  parser objects it creates last are the parsers of \<open>sys\<close>.
\<close>

definition init ::
  "('rx, 'c) collaborators \<Rightarrow> string \<Rightarrow> string \<Rightarrow> world \<Rightarrow> (exn + git) \<times> world" where
  "init sys directory binary_path w =
     (let self = \<lparr>self_binary_path_list = None, self_directory = None\<rparr> in
      case build_binary_path_list sys binary_path self w of
        (Inl e, self, w) \<Rightarrow> (Inl e, w)
      | (Inr _, self, w) \<Rightarrow>
          (let self = self\<lparr>self_directory := None\<rparr> in
           case build_directory sys directory self w of
             (Inl e, self, w) \<Rightarrow> (Inl e, w)
           | (Inr _, self, w) \<Rightarrow> (Inr self, w)))"

text \<open>\<open>get_commits\<close>.\<close>

definition get_commits ::
  "('rx, 'c) collaborators \<Rightarrow> string \<Rightarrow> git \<Rightarrow> world \<Rightarrow> 'c list outcome" where
  "get_commits sys revision_range self w =
     (case run sys (''log '' @ revision_range @ '' --pretty=raw'') True self w of
        (Inl e, self, w) \<Rightarrow> (Inl e, self, w)
      | (Inr p, self, w) \<Rightarrow>
          (case extract_commits sys (stdout p) of
             Inl bad \<Rightarrow> (Inl (MalformedLogRecord bad), self, w)
           | Inr commits \<Rightarrow> (Inr commits, self, w)))"

text \<open>\<open>re.search(pattern, x)\<close>, read as a truth value: the error, or whether a match exists.\<close>

definition re_search :: "('rx, 'c) collaborators \<Rightarrow> string \<Rightarrow> string \<Rightarrow> exn + bool" where
  "re_search sys pattern x =
     (case re_compile sys pattern of
        None \<Rightarrow> Inl ReError
      | Some rx \<Rightarrow> Inr (re_search_compiled sys rx x))"

text \<open>
  The two list comprehensions of \<open>get_branches\<close>, \<open>[x for x in branches if re.search(p, x)]\<close>
  with \<open>keep = True\<close> and \<open>[x for x in branches if not re.search(p, x)]\<close> with
  \<open>keep = False\<close>: the names are tested from left to right, and the first exception ends
  the comprehension.
\<close>

fun filter_branches ::
  "('rx, 'c) collaborators \<Rightarrow> bool \<Rightarrow> string \<Rightarrow> string list \<Rightarrow> exn + string list" where
  "filter_branches sys keep pattern [] = Inr []"
| "filter_branches sys keep pattern (x # branches) =
     (case re_search sys pattern x of
        Inl e \<Rightarrow> Inl e
      | Inr found \<Rightarrow>
          (case filter_branches sys keep pattern branches of
             Inl e \<Rightarrow> Inl e
           | Inr kept \<Rightarrow> Inr (if found = keep then x # kept else kept)))"

text \<open>\<open>get_branches\<close>.\<close>

definition get_branches ::
  "('rx, 'c) collaborators \<Rightarrow> string option \<Rightarrow> string option \<Rightarrow> git \<Rightarrow> world \<Rightarrow>
     string list outcome" where
  "get_branches sys include exclude self w =
     (case run sys ''branch --all'' True self w of
        (Inl e, self, w) \<Rightarrow> (Inl e, self, w)
      | (Inr p, self, w) \<Rightarrow>
          (case extract_branches sys (stdout p) of
             Inl bad \<Rightarrow> (Inl (MalformedLogRecord bad), self, w)
           | Inr branches \<Rightarrow>
               (case (case include of
                        None \<Rightarrow> Inr branches
                      | Some pattern \<Rightarrow> filter_branches sys True pattern branches) of
                  Inl e \<Rightarrow> (Inl e, self, w)
                | Inr branches \<Rightarrow>
                    (case (case exclude of
                             None \<Rightarrow> Inr branches
                           | Some pattern \<Rightarrow> filter_branches sys False pattern branches) of
                       Inl e \<Rightarrow> (Inl e, self, w)
                     | Inr branches \<Rightarrow> (Inr branches, self, w)))))"

section \<open>Whitespace-separated tokens\<close>

text \<open>
  The tokens of a text in the usual sense: its maximal runs of characters that are not
  whitespace, in order. A text of whitespace only has no token.
\<close>

function words :: "string \<Rightarrow> string list" where
  "words s =
     (let s' = dropWhile isspace s
      in if s' = [] then []
         else takeWhile (\<lambda>c. \<not> isspace c) s' # words (dropWhile (\<lambda>c. \<not> isspace c) s'))"
  by pat_completeness auto
termination
proof (relation "measure length")
  fix s s'
  assume s': "s' = dropWhile isspace s" and ne: "s' \<noteq> []"
  from ne obtain c cs where r: "s' = c # cs" by (cases s') auto
  have "\<not> isspace c"
    using s' r by (metis dropWhile_eq_Cons_conv)
  then have "dropWhile (\<lambda>c. \<not> isspace c) s' = dropWhile (\<lambda>c. \<not> isspace c) cs"
    by (simp add: r)
  moreover have "length (dropWhile (\<lambda>c. \<not> isspace c) cs) \<le> length cs"
    by (rule length_dropWhile_le)
  moreover have "length s' \<le> length s" unfolding s' by (rule length_dropWhile_le)
  ultimately show "(dropWhile (\<lambda>c. \<not> isspace c) s', s) \<in> measure length" by (simp add: r)
qed simp

declare words.simps [simp del]

section \<open>A fragment of the regular-expression module\<close>

text \<open>
  The meaning of the patterns written with ordinary characters, \<open>.\<close>, \<open>^\<close> and \<open>$\<close> only,
  under the module's default flags: an ordinary character matches itself, \<open>.\<close> any
  character but a newline, \<open>^\<close> the start of the text, \<open>$\<close> its end or the place before
  a newline that ends it. Such a pattern always compiles. A pattern of these characters and
  \<open>(\<close> that holds a \<open>(\<close> has a group that is never closed and does not compile. Every
  other pattern is left to the module.
\<close>

datatype atom = Lit char | Dot | Bol | Eol

datatype fragment = Compiled "atom list" | Invalid | Unmodelled

definition atom_of :: "char \<Rightarrow> atom" where
  "atom_of c =
     (if c = CHR ''.'' then Dot else if c = CHR ''^'' then Bol
      else if c = CHR ''$'' then Eol else Lit c)"

definition fragment_of :: "string \<Rightarrow> fragment" where
  "fragment_of pattern =
     (if \<exists>c\<in>set pattern. c \<in> {CHR ''*'', CHR ''+'', CHR ''?'', CHR ''{'', CHR ''}'',
            CHR ''['', CHR '']'', CHR 0x5C, CHR ''|'', CHR '')''}
      then Unmodelled
      else if CHR ''('' \<in> set pattern then Invalid
      else Compiled (map atom_of pattern))"

text \<open>
  \<open>match_here atoms at_start text\<close>: the atoms match a prefix of \<open>text\<close>, where \<open>at_start\<close>
  says whether \<open>text\<close> is the whole text searched.
\<close>

fun match_here :: "atom list \<Rightarrow> bool \<Rightarrow> string \<Rightarrow> bool" where
  "match_here [] at_start text = True"
| "match_here (Lit c # atoms) at_start [] = False"
| "match_here (Lit c # atoms) at_start (x # text) = (x = c \<and> match_here atoms False text)"
| "match_here (Dot # atoms) at_start [] = False"
| "match_here (Dot # atoms) at_start (x # text) = (x \<noteq> CHR 0x0A \<and> match_here atoms False text)"
| "match_here (Bol # atoms) at_start text = (at_start \<and> match_here atoms at_start text)"
| "match_here (Eol # atoms) at_start text =
     ((text = [] \<or> text = [CHR 0x0A]) \<and> match_here atoms at_start text)"

text \<open>A match that starts at some position of the text, the first position included.\<close>

fun search_from :: "atom list \<Rightarrow> bool \<Rightarrow> string \<Rightarrow> bool" where
  "search_from atoms at_start [] = match_here atoms at_start []"
| "search_from atoms at_start (x # text) =
     (match_here atoms at_start (x # text) \<or> search_from atoms False text)"

definition fragment_search :: "atom list \<Rightarrow> string \<Rightarrow> bool" where
  "fragment_search atoms text = search_from atoms True text"

text \<open>A character with no special meaning in a pattern.\<close>

definition ordinary :: "char \<Rightarrow> bool" where
  "ordinary c \<longleftrightarrow>
     c \<notin> {CHR ''.'', CHR ''^'', CHR ''$'', CHR ''*'', CHR ''+'', CHR ''?'', CHR ''{'', CHR ''}'',
          CHR ''['', CHR '']'', CHR 0x5C, CHR ''|'', CHR ''('', CHR '')''}"

text \<open>
  A regular-expression module agrees with the fragment: it compiles the patterns the fragment
  compiles, to something that finds a match in the same texts, and rejects the patterns the
  fragment rejects.
\<close>

definition re_conforms :: "('rx, 'c) collaborators \<Rightarrow> bool" where
  "re_conforms sys \<longleftrightarrow>
     (\<forall>pattern.
        case fragment_of pattern of
          Compiled atoms \<Rightarrow>
            (\<exists>rx. re_compile sys pattern = Some rx \<and>
                  (\<forall>x. re_search_compiled sys rx x = fragment_search atoms x))
        | Invalid \<Rightarrow> re_compile sys pattern = None
        | Unmodelled \<Rightarrow> True)"

section \<open>A concrete world for the examples\<close>

text \<open>The lines of a text: the pieces between its newlines, a last empty piece dropped.\<close>

fun splitlines :: "string \<Rightarrow> string list" where
  "splitlines [] = []"
| "splitlines (c # s) =
     (if c = CHR 0x0A then [] # splitlines s
      else case splitlines s of [] \<Rightarrow> [[c]] | l # ls \<Rightarrow> (c # l) # ls)"

fun has_arrow :: "string \<Rightarrow> bool" where
  "has_arrow (a # b # s) = ((a = CHR ''-'' \<and> b = CHR ''>'') \<or> has_arrow (b # s))"
| "has_arrow s = False"

text \<open>
  Modelled from the spec: \<open>GitBranchParser.extract_branches\<close> is not part of the sources at
  hand. Section 4.2: a line of whitespace only is skipped, a line with the arrow \<open>->\<close> is
  discarded, and any other line gives its text without the marker \<open>*\<close> and the whitespace
  around it; the order of the lines is kept and no name is refused.
\<close>

definition branch_of_line :: "string \<Rightarrow> string" where
  "branch_of_line l =
     (case strip l of
        [] \<Rightarrow> []
      | c # s \<Rightarrow> if c = CHR ''*'' then strip s else c # s)"

definition spec_extract_branches :: "string \<Rightarrow> string + string list" where
  "spec_extract_branches text =
     Inr (map branch_of_line
            (filter (\<lambda>l. strip l \<noteq> [] \<and> \<not> has_arrow l) (splitlines text)))"

text \<open>
  A reduced log parser for the examples, with a commit told by its identifier alone: the
  identifiers of the lines \<open>commit <id>\<close>, in order.
\<close>

definition commit_ids :: "string \<Rightarrow> string + string list" where
  "commit_ids text =
     Inr (map (drop 7) (filter (\<lambda>l. take 7 l = ''commit '') (splitlines text)))"

text \<open>
  A machine with \<open>git\<close> in \<open>/usr/bin\<close>, a repository in \<open>/srv/repo\<close> with four branches and
  two commits, a repository in \<open>/srv/new\<close> with no branch yet, and no repository elsewhere.
  Its regular-expression module is the fragment alone.
\<close>

definition example_spawn ::
  "invocation list \<Rightarrow> string list \<Rightarrow> (string \<times> string) list \<Rightarrow> spawn_result" where
  "example_spawn history argv env =
     (if env \<noteq> [(''PATH'', ''/bin:/usr/bin'')] \<or> take 2 argv \<noteq> [''git'', ''-C'']
      then Not_run ''FileNotFoundError''
      else if drop 2 argv = [''/srv/repo'', ''rev-parse'', ''--git-dir'']
            \<or> drop 2 argv = [''/srv/new'', ''rev-parse'', ''--git-dir'']
      then Exited 0 (''.git'' @ [CHR 0x0A]) []
      else if drop 2 argv = [''/srv/repo'', ''branch'', ''--all'']
      then Exited 0 (''* main'' @ [CHR 0x0A] @ ''  feature/a'' @ [CHR 0x0A] @
                     ''  feature/b'' @ [CHR 0x0A] @ ''  hotfix/c'' @ [CHR 0x0A]) []
      else if drop 2 argv = [''/srv/new'', ''branch'', ''--all'']
      then Exited 0 [] []
      else if drop 2 argv = [''/srv/repo'', ''log'', ''--pretty=raw'']
      then Exited 0 (''commit 2b'' @ [CHR 0x0A] @ ''tree 4d'' @ [CHR 0x0A] @
                     ''parent 1a'' @ [CHR 0x0A] @ [CHR 0x0A] @ ''    second'' @ [CHR 0x0A] @
                     [CHR 0x0A] @ ''commit 1a'' @ [CHR 0x0A] @ ''tree 3c'' @ [CHR 0x0A] @
                     [CHR 0x0A] @ ''    first'' @ [CHR 0x0A]) []
      else Exited 128 [] ''fatal: not a git repository or a bad revision'')"

definition example_sys :: "(atom list, string) collaborators" where
  "example_sys =
     \<lparr>environ = [(''HOME'', ''/root''), (''PATH'', ''/usr/local/bin:/usr/bin:/bin'')],
      isdir = (\<lambda>p. p \<in> {''/'', ''/srv/repo'', ''/srv/new'', ''/tmp'', ''/opt/git/bin''}),
      isfile = (\<lambda>p. p = ''/usr/bin/git''),
      which = (\<lambda>env prog. if prog = ''git'' then Some ''/usr/bin/git'' else None),
      spawn = example_spawn,
      re_compile = (\<lambda>pattern. case fragment_of pattern of Compiled atoms \<Rightarrow> Some atoms | _ \<Rightarrow> None),
      re_search_compiled = fragment_search,
      extract_commits = commit_ids,
      extract_branches = spec_extract_branches\<rparr>"

definition example_git :: git where
  "example_git = \<lparr>self_binary_path_list = Some COMMON_BINARY_PATHS, self_directory = Some ''/srv/repo''\<rparr>"

definition example_world :: world where
  "example_world = \<lparr>spawned = [], printed = []\<rparr>"

section \<open>Tokens of a command\<close>

lemma words_Nil: "words [] = []" by (simp add: words.simps)

lemma words_space_Cons: "isspace c \<Longrightarrow> words (c # s) = words s"
  by (subst words.simps, subst (2) words.simps) simp

lemma words_nonspace_Cons:
  "\<not> isspace c \<Longrightarrow> words (c # s) =
     (c # takeWhile (\<lambda>c. \<not> isspace c) s) # words (dropWhile (\<lambda>c. \<not> isspace c) s)"
  by (subst words.simps) simp

lemma words_dropWhile: "words (dropWhile isspace s) = words s"
  by (induction s) (simp_all add: words_space_Cons)

lemma words_all_space: "\<forall>c\<in>set s. isspace c \<Longrightarrow> words s = []"
  by (induction s) (simp_all add: words_Nil words_space_Cons)

lemma takeWhile_nonspace_append:
  "isspace c \<Longrightarrow> takeWhile (\<lambda>c. \<not> isspace c) (a @ c # b) = takeWhile (\<lambda>c. \<not> isspace c) a"
  by (induction a) simp_all

lemma dropWhile_nonspace_append:
  "isspace c \<Longrightarrow> dropWhile (\<lambda>c. \<not> isspace c) (a @ c # b) = dropWhile (\<lambda>c. \<not> isspace c) a @ c # b"
  by (induction a) simp_all

lemma words_append_space:
  "isspace c \<Longrightarrow> words (a @ c # b) = words a @ words b"
proof (induction a rule: length_induct)
  case (1 a)
  show ?case
  proof (cases a)
    case Nil
    with 1 show ?thesis by (simp add: words_Nil words_space_Cons)
  next
    case (Cons x a')
    show ?thesis
    proof (cases "isspace x")
      case True
      with 1 Cons show ?thesis by (simp add: words_space_Cons)
    next
      case False
      have "length (dropWhile (\<lambda>c. \<not> isspace c) a') < length a"
        using length_dropWhile_le [of "\<lambda>c. \<not> isspace c" a'] Cons by simp
      with 1 have "words (dropWhile (\<lambda>c. \<not> isspace c) a' @ c # b)
          = words (dropWhile (\<lambda>c. \<not> isspace c) a') @ words b"
        by blast
      with False Cons 1(2) show ?thesis
        by (simp add: words_nonspace_Cons takeWhile_nonspace_append dropWhile_nonspace_append)
    qed
  qed
qed

lemma words_rstrip: "words (rev (dropWhile isspace (rev s))) = words s"
proof -
  have s: "s = rev (dropWhile isspace (rev s)) @ rev (takeWhile isspace (rev s))"
    by (metis rev_append rev_rev_ident takeWhile_dropWhile_id)
  have sp: "\<forall>c\<in>set (rev (takeWhile isspace (rev s))). isspace c"
    by (auto dest: set_takeWhileD)
  show ?thesis
  proof (cases "rev (takeWhile isspace (rev s))")
    case Nil
    with s show ?thesis by simp
  next
    case (Cons c ws)
    with sp have "isspace c" "\<forall>c\<in>set ws. isspace c" by auto
    then have "words (rev (dropWhile isspace (rev s)) @ c # ws) = words (rev (dropWhile isspace (rev s)))"
      by (simp add: words_append_space words_all_space)
    with s Cons show ?thesis by simp
  qed
qed

lemma words_strip: "words (strip s) = words s"
  by (simp add: strip_def words_dropWhile words_rstrip)

lemma re_split_ws_words:
  "s \<noteq> [] \<Longrightarrow> \<not> isspace (hd s) \<Longrightarrow> \<not> isspace (last s) \<Longrightarrow> re_split_ws s = words s"
proof (induction s rule: length_induct)
  case (1 s)
  let ?piece = "takeWhile (\<lambda>c. \<not> isspace c) s"
  let ?rest = "dropWhile (\<lambda>c. \<not> isspace c) s"
  from 1(2,3) obtain c s0 where s: "s = c # s0" and c: "\<not> isspace c" by (cases s) auto
  have w: "words s = ?piece # words ?rest"
    using c by (simp add: s words_nonspace_Cons)
  show ?case
  proof (cases "?rest = []")
    case True
    then have "words ?rest = []" by (simp only: words_Nil)
    with True show ?thesis
      by (subst re_split_ws.simps) (simp add: w Let_def del: dropWhile_eq_Nil_conv)
  next
    case False
    let ?next = "dropWhile isspace ?rest"
    have l: "last ?rest = last s"
      using False by (metis last_appendR takeWhile_dropWhile_id)
    have "last ?rest \<in> set ?rest" using False by simp
    with l 1(4) have ne: "?next \<noteq> []"
      by (auto simp: dropWhile_eq_Nil_conv)
    then have h: "\<not> isspace (hd ?next)" by (rule hd_dropWhile)
    have "last ?next = last ?rest"
      using ne by (metis last_appendR takeWhile_dropWhile_id)
    with l 1(4) have la: "\<not> isspace (last ?next)" by simp
    have "length ?rest \<le> length s0"
      using c length_dropWhile_le [of "\<lambda>c. \<not> isspace c" s0] by (simp add: s)
    moreover have "length ?next \<le> length ?rest" by (rule length_dropWhile_le)
    ultimately have "length ?next < length s" by (simp add: s)
    with 1(1) ne h la have "re_split_ws ?next = words ?next" by blast
    then have "re_split_ws ?next = words ?rest" by (simp add: words_dropWhile)
    with False show ?thesis
      by (subst re_split_ws.simps) (simp add: w Let_def del: dropWhile_eq_Nil_conv)
  qed
qed

lemma rstrip_Nil_iff: "dropWhile isspace (rev s) = [] \<longleftrightarrow> (\<forall>c\<in>set s. isspace c)"
  by (simp add: dropWhile_eq_Nil_conv)

lemma strip_Nil_iff: "strip s = [] \<longleftrightarrow> (\<forall>c\<in>set s. isspace c)"
proof -
  let ?t = "dropWhile isspace (rev s)"
  have "strip s = [] \<longleftrightarrow> (\<forall>c\<in>set ?t. isspace c)"
    by (simp add: strip_def dropWhile_eq_Nil_conv)
  also have "\<dots> \<longleftrightarrow> ?t = []"
  proof
    assume a: "\<forall>c\<in>set ?t. isspace c"
    show "?t = []"
    proof (rule ccontr)
      assume ne: "?t \<noteq> []"
      then have "\<not> isspace (hd ?t)" by (rule hd_dropWhile)
      moreover have "hd ?t \<in> set ?t" using ne by simp
      ultimately show False using a by blast
    qed
  next
    assume e: "?t = []"
    show "\<forall>c\<in>set ?t. isspace c" unfolding e by simp
  qed
  finally show ?thesis by (simp only: rstrip_Nil_iff)
qed

lemma hd_strip: "strip s \<noteq> [] \<Longrightarrow> \<not> isspace (hd (strip s))"
  unfolding strip_def by (rule hd_dropWhile)

lemma last_strip: "strip s \<noteq> [] \<Longrightarrow> \<not> isspace (last (strip s))"
proof -
  assume ne: "strip s \<noteq> []"
  let ?t = "rev (dropWhile isspace (rev s))"
  have "strip s = dropWhile isspace ?t" by (simp add: strip_def)
  with ne have "last (strip s) = last ?t"
    by (metis last_appendR takeWhile_dropWhile_id)
  moreover have "?t \<noteq> []" using ne by (auto simp: strip_def simp del: dropWhile_eq_Nil_conv)
  then have "\<not> isspace (last ?t)"
    by (simp add: last_rev hd_dropWhile)
  ultimately show ?thesis by simp
qed

lemma re_split_ws_strip:
  "re_split_ws (strip s) = (if \<forall>c\<in>set s. isspace c then [[]] else words s)"
proof (cases "strip s = []")
  case True
  then show ?thesis by (simp add: strip_Nil_iff [symmetric] re_split_ws.simps)
next
  case False
  then have "re_split_ws (strip s) = words (strip s)"
    by (intro re_split_ws_words hd_strip last_strip)
  with False show ?thesis by (simp add: strip_Nil_iff [symmetric] words_strip)
qed

lemma isspace_simps:
  "isspace CHR '' ''" "\<not> isspace CHR ''l''" "\<not> isspace CHR ''o''" "\<not> isspace CHR ''g''"
  "\<not> isspace CHR ''-''" "\<not> isspace CHR ''p''" "\<not> isspace CHR ''r''" "\<not> isspace CHR ''e''"
  "\<not> isspace CHR ''t''" "\<not> isspace CHR ''y''" "\<not> isspace CHR ''=''" "\<not> isspace CHR ''a''"
  "\<not> isspace CHR ''w''" "\<not> isspace CHR ''b''" "\<not> isspace CHR ''n''" "\<not> isspace CHR ''c''"
  "\<not> isspace CHR ''h''" "\<not> isspace CHR ''v''" "\<not> isspace CHR ''s''" "\<not> isspace CHR ''i''"
  "\<not> isspace CHR ''d''"
  by (simp_all add: isspace_def)

lemma log_command_tokens:
  "re_split_ws (strip (''log '' @ revision_range @ '' --pretty=raw'')) =
     ''log'' # words revision_range @ [''--pretty=raw'']"
proof -
  have "re_split_ws (strip (''log '' @ revision_range @ '' --pretty=raw''))
      = words (''log '' @ revision_range @ '' --pretty=raw'')"
    by (simp add: re_split_ws_strip isspace_simps)
  also have "\<dots> = words (''log'' @ CHR '' '' # (revision_range @ CHR '' '' # ''--pretty=raw''))"
    by simp
  also have "\<dots> = words ''log'' @ words revision_range @ words ''--pretty=raw''"
    by (simp only: words_append_space isspace_simps)
  also have "\<dots> = ''log'' # words revision_range @ [''--pretty=raw'']"
    by (simp add: words_nonspace_Cons isspace_simps words_Nil)
  finally show ?thesis .
qed

lemma branch_command_tokens: "re_split_ws (strip ''branch --all'') = [''branch'', ''--all'']"
  by (simp add: re_split_ws_strip words_nonspace_Cons words_space_Cons isspace_simps words_Nil)

lemma check_command_tokens: "re_split_ws (strip ''rev-parse --git-dir'') = [''rev-parse'', ''--git-dir'']"
  by (simp add: re_split_ws_strip words_nonspace_Cons words_space_Cons isspace_simps words_Nil)

lemma run_constructed:
  assumes "self_directory self = Some d" and "self_binary_path_list self = Some paths"
  shows "run sys command check self w =
     (let argv = [''git'', ''-C'', d] @ re_split_ws (strip command);
          env = [(''PATH'', join '':'' paths)];
          w' = w\<lparr>spawned := spawned w @ [(argv, env)]\<rparr>
      in case spawn sys (spawned w) argv env of
           Not_run e \<Rightarrow> (Inl (OtherSubprocessError e), self, w')
         | Exited rc out err \<Rightarrow>
             if check \<and> rc \<noteq> 0
             then (Inl (CalledProcessError rc argv out err), self, w'\<lparr>printed := printed w' @ [err]\<rparr>)
             else (Inr \<lparr>args = argv, returncode = rc, stdout = out, stderr = err\<rparr>, self, w'))"
  using assms by (auto simp: run_def subprocess_run_def Let_def split: spawn_result.split)

lemma run_unconstructed:
  "self_directory self = None \<or> self_binary_path_list self = None \<Longrightarrow>
     run sys command check self w = (Inl TypeError, self, w)"
  by (auto simp: run_def Let_def split: option.split)

lemma run_self: "fst (snd (run sys command check self w)) = self"
proof (cases "self_directory self = None \<or> self_binary_path_list self = None")
  case True
  then show ?thesis by (simp add: run_unconstructed)
next
  case False
  then obtain d paths where "self_directory self = Some d" "self_binary_path_list self = Some paths"
    by auto
  then show ?thesis
    by (simp add: run_constructed Let_def split: spawn_result.split)
qed

lemma filter_branches_valid:
  "re_compile sys pattern = Some rx \<Longrightarrow>
     filter_branches sys keep pattern branches =
       Inr (filter (\<lambda>x. re_search_compiled sys rx x = keep) branches)"
  by (induction branches) (simp_all add: re_search_def)

lemma filter_branches_invalid:
  "re_compile sys pattern = None \<Longrightarrow>
     filter_branches sys keep pattern branches = (if branches = [] then Inr [] else Inl ReError)"
  by (cases branches) (simp_all add: re_search_def)

lemma filter_branches_subseq:
  "filter_branches sys keep pattern branches = Inr kept \<Longrightarrow> subseq kept branches"
  by (cases "re_compile sys pattern")
     (auto simp: filter_branches_invalid filter_branches_valid split: if_splits)

section \<open>The methods on a constructed object\<close>

lemma get_commits_constructed:
  assumes "self_directory self = Some d" and "self_binary_path_list self = Some paths"
  shows "get_commits sys revision_range self w =
     (let argv = [''git'', ''-C'', d, ''log''] @ words revision_range @ [''--pretty=raw''];
          env = [(''PATH'', join '':'' paths)];
          w' = w\<lparr>spawned := spawned w @ [(argv, env)]\<rparr>
      in case spawn sys (spawned w) argv env of
           Not_run e \<Rightarrow> (Inl (OtherSubprocessError e), self, w')
         | Exited rc out err \<Rightarrow>
             if rc \<noteq> 0
             then (Inl (CalledProcessError rc argv out err), self, w'\<lparr>printed := printed w' @ [err]\<rparr>)
             else (case extract_commits sys out of
                     Inl bad \<Rightarrow> (Inl (MalformedLogRecord bad), self, w')
                   | Inr commits \<Rightarrow> (Inr commits, self, w')))"
  unfolding get_commits_def run_constructed [OF assms] log_command_tokens
  by (simp add: Let_def split: spawn_result.split)

lemma example_git_simps:
  "self_directory example_git = Some ''/srv/repo''"
  "self_binary_path_list example_git = Some [''/bin'', ''/usr/bin'']"
  by (simp_all add: example_git_def COMMON_BINARY_PATHS_def)

lemma example_world_simps: "spawned example_world = []" "printed example_world = []"
  by (simp_all add: example_world_def)

lemma example_sys_simps:
  "spawn example_sys = example_spawn"
  "extract_commits example_sys = commit_ids"
  "extract_branches example_sys = spec_extract_branches"
  "re_search_compiled example_sys = fragment_search"
  "re_compile example_sys = (\<lambda>pattern. case fragment_of pattern of Compiled atoms \<Rightarrow> Some atoms | _ \<Rightarrow> None)"
  "isfile example_sys = (\<lambda>p. p = ''/usr/bin/git'')"
  "isdir example_sys = (\<lambda>p. p \<in> {''/'', ''/srv/repo'', ''/srv/new'', ''/tmp'', ''/opt/git/bin''})"
  by (simp_all add: example_sys_def)

section \<open>Listing branches\<close>

lemma get_branches_parsed:
  assumes "self_directory self = Some d" and "self_binary_path_list self = Some paths"
    and "spawn sys (spawned w) [''git'', ''-C'', d, ''branch'', ''--all'']
           [(''PATH'', join '':'' paths)] = Exited 0 out err"
    and "extract_branches sys out = Inr parsed"
  shows "get_branches sys include exclude self w =
     (let w' = w\<lparr>spawned := spawned w @
                  [([''git'', ''-C'', d, ''branch'', ''--all''], [(''PATH'', join '':'' paths)])]\<rparr>
      in case (case include of
                 None \<Rightarrow> Inr parsed
               | Some pattern \<Rightarrow> filter_branches sys True pattern parsed) of
           Inl e \<Rightarrow> (Inl e, self, w')
         | Inr branches \<Rightarrow>
             (case (case exclude of
                      None \<Rightarrow> Inr branches
                    | Some pattern \<Rightarrow> filter_branches sys False pattern branches) of
                Inl e \<Rightarrow> (Inl e, self, w')
              | Inr branches \<Rightarrow> (Inr branches, self, w')))"
  unfolding get_branches_def run_constructed [OF assms(1,2)] branch_command_tokens
  using assms(3,4) by (simp add: Let_def)

lemma re_conforms_compiled:
  assumes "re_conforms sys" and "fragment_of pattern = Compiled atoms"
  shows "\<exists>rx. re_compile sys pattern = Some rx \<and>
              (\<forall>x. re_search_compiled sys rx x = fragment_search atoms x)"
proof -
  from assms(1) have "case fragment_of pattern of
          Compiled atoms \<Rightarrow>
            (\<exists>rx. re_compile sys pattern = Some rx \<and>
                  (\<forall>x. re_search_compiled sys rx x = fragment_search atoms x))
        | Invalid \<Rightarrow> re_compile sys pattern = None
        | Unmodelled \<Rightarrow> True"
    unfolding re_conforms_def by (rule spec)
  with assms(2) show ?thesis by simp
qed

lemma example_sys_conforms: "re_conforms example_sys"
  unfolding re_conforms_def
proof
  fix pattern
  show "case fragment_of pattern of
          Compiled atoms \<Rightarrow>
            (\<exists>rx. re_compile example_sys pattern = Some rx \<and>
                  (\<forall>x. re_search_compiled example_sys rx x = fragment_search atoms x))
        | Invalid \<Rightarrow> re_compile example_sys pattern = None
        | Unmodelled \<Rightarrow> True"
    by (cases "fragment_of pattern") (simp_all add: example_sys_simps)
qed

lemma filter_branches_conforms:
  assumes "re_conforms sys" and "fragment_of pattern = Compiled atoms"
  shows "filter_branches sys keep pattern branches =
           Inr (filter (\<lambda>x. fragment_search atoms x = keep) branches)"
proof -
  from re_conforms_compiled [OF assms] obtain rx where "re_compile sys pattern = Some rx"
    and "\<And>x. re_search_compiled sys rx x = fragment_search atoms x"
    by blast
  then show ?thesis by (simp add: filter_branches_valid)
qed

lemma fragment_include: "fragment_of ''^feature/'' =
    Compiled [Bol, Lit CHR ''f'', Lit CHR ''e'', Lit CHR ''a'', Lit CHR ''t'', Lit CHR ''u'',
              Lit CHR ''r'', Lit CHR ''e'', Lit CHR ''/'']"
  by (simp add: fragment_of_def atom_of_def)

lemma fragment_exclude: "fragment_of ''b$'' = Compiled [Lit CHR ''b'', Eol]"
  by (simp add: fragment_of_def atom_of_def)

lemma fragment_of_ordinary:
  "\<forall>c\<in>set pattern. ordinary c \<Longrightarrow> fragment_of pattern = Compiled (map Lit pattern)"
  by (auto simp: fragment_of_def ordinary_def atom_of_def)

lemma match_here_Lit: "match_here (map Lit pattern) at_start text = prefix pattern text"
proof (induction pattern arbitrary: at_start "text")
  case Nil
  then show ?case by simp
next
  case (Cons c pattern)
  then show ?case by (cases "text") auto
qed

lemma search_from_Lit: "search_from (map Lit pattern) at_start text = sublist pattern text"
proof (induction "text" arbitrary: at_start)
  case Nil
  then show ?case by (simp add: match_here_Lit)
next
  case (Cons x rest)
  then show ?case by (simp add: match_here_Lit sublist_Cons_right)
qed

lemma subseq_count_list: "subseq xs ys \<Longrightarrow> count_list xs x \<le> count_list ys x"
  by (induction rule: list_emb.induct) auto

lemma example_branch_listing:
  "spawn example_sys [] [''git'', ''-C'', ''/srv/repo'', ''branch'', ''--all'']
     [(''PATH'', join '':'' [''/bin'', ''/usr/bin''])] =
   Exited 0 ''* main\<newline>  feature/a\<newline>  feature/b\<newline>  hotfix/c\<newline>'' []"
  by (simp add: example_sys_simps example_spawn_def)

lemma example_branches_parsed:
  "extract_branches example_sys ''* main\<newline>  feature/a\<newline>  feature/b\<newline>  hotfix/c\<newline>'' =
     Inr [''main'', ''feature/a'', ''feature/b'', ''hotfix/c'']"
  by (simp add: example_sys_simps spec_extract_branches_def branch_of_line_def strip_def isspace_def)

lemma example_s:
  "spawn example_sys (spawned example_world) [''git'', ''-C'', ''/srv/repo'', ''branch'', ''--all'']
     [(''PATH'', join '':'' [''/bin'', ''/usr/bin''])] =
   Exited 0 ''* main\<newline>  feature/a\<newline>  feature/b\<newline>  hotfix/c\<newline>'' []"
  by (simp only: example_world_simps example_branch_listing)

lemma example_include:
  "filter_branches example_sys True ''^feature/'' [''main'', ''feature/a'', ''feature/b'', ''hotfix/c''] =
     Inr [''feature/a'', ''feature/b'']"
  unfolding filter_branches_conforms [OF example_sys_conforms fragment_include]
  by (simp add: fragment_search_def)

lemma example_exclude:
  "filter_branches example_sys False ''b$'' [''feature/a'', ''feature/b''] = Inr [''feature/a'']"
  unfolding filter_branches_conforms [OF example_sys_conforms fragment_exclude]
  by (simp add: fragment_search_def)

section \<open>The constructor\<close>

lemma join_common: "join '':'' COMMON_BINARY_PATHS = ''/bin:/usr/bin''"
  by (simp add: COMMON_BINARY_PATHS_def)

lemma build_binary_path_list_spawned:
  "spawned (snd (snd (build_binary_path_list sys binary_path self w))) = spawned w"
  by (simp add: build_binary_path_list_def Let_def split: option.split)

lemma build_binary_path_list_Inr:
  assumes "build_binary_path_list sys binary_path self w = (Inr u, self', w')"
  shows "binary_path = [] \<and> self' = self\<lparr>self_binary_path_list := Some COMMON_BINARY_PATHS\<rparr>
       \<and> spawned w' = spawned w
       \<and> (binary_shell_independent (isfile sys) COMMON_BINARY_PATHS
            \<or> which sys (environ sys) ''git'' \<noteq> None)"
  using assms
  by (auto simp: build_binary_path_list_def Let_def split: if_splits option.splits)

lemma build_binary_path_list_found:
  assumes "binary_shell_independent (isfile sys) COMMON_BINARY_PATHS
            \<or> which sys (environ sys) ''git'' \<noteq> None"
  shows "\<exists>w'. build_binary_path_list sys [] self w =
           (Inr (), self\<lparr>self_binary_path_list := Some COMMON_BINARY_PATHS\<rparr>, w')
         \<and> spawned w' = spawned w"
  using assms by (auto simp: build_binary_path_list_def Let_def)

lemma build_directory_constructed:
  assumes "self_binary_path_list self = Some paths"
  shows "build_directory sys directory self w =
     (let d = (if directory \<noteq> ''/'' then rstrip_slash directory else directory);
          self' = self\<lparr>self_directory := Some d\<rparr>;
          argv = [''git'', ''-C'', d, ''rev-parse'', ''--git-dir''];
          env = [(''PATH'', join '':'' paths)];
          w' = w\<lparr>spawned := spawned w @ [(argv, env)]\<rparr>
      in case spawn sys (spawned w) argv env of
           Not_run e \<Rightarrow> (Inl (OtherSubprocessError e), self', w')
         | Exited rc out err \<Rightarrow>
             if rc \<noteq> 0 then (Inl (NotARepositoryError d), self', w')
             else (Inr (), self', w'))"
proof -
  let ?d = "if directory \<noteq> ''/'' then rstrip_slash directory else directory"
  let ?self = "self\<lparr>self_directory := Some ?d\<rparr>"
  have d: "self_directory ?self = Some ?d" by simp
  have p: "self_binary_path_list ?self = Some paths" using assms by simp
  show ?thesis
    unfolding build_directory_def Let_def run_constructed [OF d p] check_command_tokens
    by (simp split: spawn_result.split)
qed

lemma init_empty_binary_path:
  assumes "binary_shell_independent (isfile sys) COMMON_BINARY_PATHS
            \<or> which sys (environ sys) ''git'' \<noteq> None"
  shows "\<exists>w1. spawned w1 = spawned w \<and>
     init sys directory [] w =
     (let d = (if directory \<noteq> ''/'' then rstrip_slash directory else directory);
          self' = \<lparr>self_binary_path_list = Some COMMON_BINARY_PATHS, self_directory = Some d\<rparr>;
          argv = [''git'', ''-C'', d, ''rev-parse'', ''--git-dir''];
          env = [(''PATH'', ''/bin:/usr/bin'')];
          w' = w1\<lparr>spawned := spawned w @ [(argv, env)]\<rparr>
      in case spawn sys (spawned w) argv env of
           Not_run e \<Rightarrow> (Inl (OtherSubprocessError e), w')
         | Exited rc out err \<Rightarrow>
             if rc \<noteq> 0 then (Inl (NotARepositoryError d), w')
             else (Inr self', w'))"
proof -
  let ?self0 = "\<lparr>self_binary_path_list = None, self_directory = None\<rparr>"
  from build_binary_path_list_found [OF assms, of ?self0 w]
  obtain w1 where b: "build_binary_path_list sys [] ?self0 w =
           (Inr (), ?self0\<lparr>self_binary_path_list := Some COMMON_BINARY_PATHS\<rparr>, w1)"
    and s: "spawned w1 = spawned w" by blast
  have p: "self_binary_path_list
      (?self0\<lparr>self_binary_path_list := Some COMMON_BINARY_PATHS, self_directory := None\<rparr>)
      = Some COMMON_BINARY_PATHS" by simp
  have "init sys directory [] w =
     (let d = (if directory \<noteq> ''/'' then rstrip_slash directory else directory);
          self' = \<lparr>self_binary_path_list = Some COMMON_BINARY_PATHS, self_directory = Some d\<rparr>;
          argv = [''git'', ''-C'', d, ''rev-parse'', ''--git-dir''];
          env = [(''PATH'', ''/bin:/usr/bin'')];
          w' = w1\<lparr>spawned := spawned w @ [(argv, env)]\<rparr>
      in case spawn sys (spawned w) argv env of
           Not_run e \<Rightarrow> (Inl (OtherSubprocessError e), w')
         | Exited rc out err \<Rightarrow>
             if rc \<noteq> 0 then (Inl (NotARepositoryError d), w')
             else (Inr self', w'))"
    unfolding init_def Let_def b prod.case sum.case build_directory_constructed [OF p] join_common s
    by (simp split: spawn_result.split)
  with s show ?thesis by blast
qed

lemma init_not_found:
  "\<not> (binary_path = [] \<and> (binary_shell_independent (isfile sys) COMMON_BINARY_PATHS
            \<or> which sys (environ sys) ''git'' \<noteq> None)) \<Longrightarrow>
   \<exists>e. init sys directory binary_path w = (Inl e, w)"
  by (auto simp: init_def build_binary_path_list_def Let_def split: option.split)

lemma rstrip_slash_spec:
  "(\<exists>n. s = rstrip_slash s @ replicate n (CHR ''/''))
   \<and> (rstrip_slash s = [] \<or> last (rstrip_slash s) \<noteq> CHR ''/'')"
proof
  let ?t = "takeWhile (\<lambda>c. c = CHR ''/'') (rev s)"
  have "s = rev (dropWhile (\<lambda>c. c = CHR ''/'') (rev s)) @ rev ?t"
    by (metis rev_append rev_rev_ident takeWhile_dropWhile_id)
  moreover have "rev ?t = replicate (length ?t) (CHR ''/'')"
    by (rule replicate_eqI) (auto dest: set_takeWhileD)
  ultimately have "s = rstrip_slash s @ replicate (length ?t) (CHR ''/'')"
    by (simp add: rstrip_slash_def)
  then show "\<exists>n. s = rstrip_slash s @ replicate n (CHR ''/'')" ..
  show "rstrip_slash s = [] \<or> last (rstrip_slash s) \<noteq> CHR ''/''"
    using hd_dropWhile [of "\<lambda>c. c = CHR ''/''" "rev s"]
    by (auto simp: rstrip_slash_def last_rev simp del: dropWhile_eq_Nil_conv)
qed

lemma example_found: "binary_shell_independent (isfile example_sys) COMMON_BINARY_PATHS"
  by (simp add: COMMON_BINARY_PATHS_def example_sys_simps rstrip_slash_def)

lemma example_init:
  "init example_sys ''/srv/repo//'' [] example_world =
     (Inr example_git,
      \<lparr>spawned = [([''git'', ''-C'', ''/srv/repo'', ''rev-parse'', ''--git-dir''],
                    [(''PATH'', ''/bin:/usr/bin'')])],
        printed = []\<rparr>)"
  unfolding init_def build_directory_def
  by (simp add: build_binary_path_list_def COMMON_BINARY_PATHS_def example_sys_simps
        rstrip_slash_def run_constructed check_command_tokens example_spawn_def
        example_world_def example_git_def Let_def)

lemma init_spawned:
  assumes "init sys directory binary_path w0 = (r, w1)"
  shows "spawned w1 = spawned w0
       \<or> spawned w1 = spawned w0 @
           [([''git'', ''-C'', if directory \<noteq> ''/'' then rstrip_slash directory else directory,
              ''rev-parse'', ''--git-dir''], [(''PATH'', ''/bin:/usr/bin'')])]"
proof (cases "binary_path = [] \<and> (binary_shell_independent (isfile sys) COMMON_BINARY_PATHS
            \<or> which sys (environ sys) ''git'' \<noteq> None)")
  case False
  from init_not_found [OF this, of directory w0] assms show ?thesis by auto
next
  case True
  let ?d = "if directory \<noteq> ''/'' then rstrip_slash directory else directory"
  let ?argv = "[''git'', ''-C'', ?d, ''rev-parse'', ''--git-dir'']"
  let ?env = "[(''PATH'', ''/bin:/usr/bin'')]"
  from True init_empty_binary_path [of sys w0 directory] obtain w' where
    "spawned w' = spawned w0" and
      "init sys directory [] w0 =
        (let d = ?d;
             self' = \<lparr>self_binary_path_list = Some COMMON_BINARY_PATHS, self_directory = Some d\<rparr>;
             argv = [''git'', ''-C'', d, ''rev-parse'', ''--git-dir''];
             env = [(''PATH'', ''/bin:/usr/bin'')];
             w' = w'\<lparr>spawned := spawned w0 @ [(argv, env)]\<rparr>
         in case spawn sys (spawned w0) argv env of
              Not_run e \<Rightarrow> (Inl (OtherSubprocessError e), w')
            | Exited rc out err \<Rightarrow>
                if rc \<noteq> 0 then (Inl (NotARepositoryError d), w')
                else (Inr self', w'))"
    by blast
  with True assms have "spawned w1 = spawned w0 @ [(?argv, ?env)]"
    by (cases "spawn sys (spawned w0) ?argv ?env") (auto simp: Let_def split: if_splits)
  then show ?thesis ..
qed

lemma init_Inr_self:
  assumes "init sys directory binary_path w0 = (Inr self, w1)"
  shows "self = \<lparr>self_binary_path_list = Some [''/bin'', ''/usr/bin''],
                 self_directory =
                   Some (if directory \<noteq> ''/'' then rstrip_slash directory else directory)\<rparr>"
proof -
  have f: "binary_path = [] \<and> (binary_shell_independent (isfile sys) COMMON_BINARY_PATHS
            \<or> which sys (environ sys) ''git'' \<noteq> None)"
  proof (rule ccontr)
    assume "\<not> ?thesis"
    from init_not_found [OF this, of directory w0] assms show False by auto
  qed
  let ?d = "if directory \<noteq> ''/'' then rstrip_slash directory else directory"
  let ?argv = "[''git'', ''-C'', ?d, ''rev-parse'', ''--git-dir'']"
  let ?env = "[(''PATH'', ''/bin:/usr/bin'')]"
  from f init_empty_binary_path [of sys w0 directory] obtain w' where
      "init sys directory [] w0 =
        (let d = ?d;
             self' = \<lparr>self_binary_path_list = Some COMMON_BINARY_PATHS, self_directory = Some d\<rparr>;
             argv = [''git'', ''-C'', d, ''rev-parse'', ''--git-dir''];
             env = [(''PATH'', ''/bin:/usr/bin'')];
             w' = w'\<lparr>spawned := spawned w0 @ [(argv, env)]\<rparr>
         in case spawn sys (spawned w0) argv env of
              Not_run e \<Rightarrow> (Inl (OtherSubprocessError e), w')
            | Exited rc out err \<Rightarrow>
                if rc \<noteq> 0 then (Inl (NotARepositoryError d), w')
                else (Inr self', w'))"
    by blast
  with f assms show ?thesis
    by (cases "spawn sys (spawned w0) ?argv ?env")
       (auto simp: Let_def COMMON_BINARY_PATHS_def split: if_splits)
qed

lemma run_spawned:
  assumes "self_directory self = Some d" and "self_binary_path_list self = Some paths"
  shows "spawned (snd (snd (run sys command check self w))) =
           spawned w @ [([''git'', ''-C'', d] @ re_split_ws (strip command),
                         [(''PATH'', join '':'' paths)])]"
  by (simp add: run_constructed [OF assms] Let_def split: spawn_result.split)

section \<open>Calls in a row\<close>

lemma get_commits_self: "fst (snd (get_commits sys revision_range self w)) = self"
proof -
  obtain r s1 w1 where r: "run sys (''log '' @ revision_range @ '' --pretty=raw'') True self w = (r, s1, w1)"
    by (cases "run sys (''log '' @ revision_range @ '' --pretty=raw'') True self w") auto
  with run_self [of sys "''log '' @ revision_range @ '' --pretty=raw''" True self w]
  have "s1 = self" by simp
  with r show ?thesis
    unfolding get_commits_def by (simp split: sum.split)
qed

lemma get_branches_self: "fst (snd (get_branches sys include exclude self w)) = self"
proof -
  obtain r s1 w1 where r: "run sys ''branch --all'' True self w = (r, s1, w1)"
    by (cases "run sys ''branch --all'' True self w") auto
  with run_self [of sys "''branch --all''" True self w]
  have "s1 = self" by simp
  with r show ?thesis
    unfolding get_branches_def by (simp split: sum.split)
qed

lemma get_branches_constructed:
  assumes "self_directory self = Some d" and "self_binary_path_list self = Some paths"
  shows "get_branches sys include exclude self w =
     (let argv = [''git'', ''-C'', d, ''branch'', ''--all''];
          env = [(''PATH'', join '':'' paths)];
          w' = w\<lparr>spawned := spawned w @ [(argv, env)]\<rparr>
      in case spawn sys (spawned w) argv env of
           Not_run e \<Rightarrow> (Inl (OtherSubprocessError e), self, w')
         | Exited rc out err \<Rightarrow>
             if rc \<noteq> 0
             then (Inl (CalledProcessError rc argv out err), self, w'\<lparr>printed := printed w' @ [err]\<rparr>)
             else (case extract_branches sys out of
                     Inl bad \<Rightarrow> (Inl (MalformedLogRecord bad), self, w')
                   | Inr branches \<Rightarrow>
                       (case (case include of
                                None \<Rightarrow> Inr branches
                              | Some pattern \<Rightarrow> filter_branches sys True pattern branches) of
                          Inl e \<Rightarrow> (Inl e, self, w')
                        | Inr branches \<Rightarrow>
                            (case (case exclude of
                                     None \<Rightarrow> Inr branches
                                   | Some pattern \<Rightarrow> filter_branches sys False pattern branches) of
                               Inl e \<Rightarrow> (Inl e, self, w')
                             | Inr branches \<Rightarrow> (Inr branches, self, w')))))"
  unfolding get_branches_def run_constructed [OF assms] branch_command_tokens
  by (simp add: Let_def split: spawn_result.split)

lemma get_commits_result:
  assumes "self_directory self = Some d" and "self_binary_path_list self = Some paths"
  shows "fst (get_commits sys revision_range self w) =
     (case spawn sys (spawned w)
             ([''git'', ''-C'', d, ''log''] @ words revision_range @ [''--pretty=raw''])
             [(''PATH'', join '':'' paths)] of
        Not_run e \<Rightarrow> Inl (OtherSubprocessError e)
      | Exited rc out err \<Rightarrow>
          if rc \<noteq> 0
          then Inl (CalledProcessError rc
                 ([''git'', ''-C'', d, ''log''] @ words revision_range @ [''--pretty=raw'']) out err)
          else (case extract_commits sys out of
                  Inl bad \<Rightarrow> Inl (MalformedLogRecord bad)
                | Inr commits \<Rightarrow> Inr commits))"
  by (simp add: get_commits_constructed [OF assms] Let_def split: spawn_result.split sum.split)

lemma get_commits_spawned:
  assumes "self_directory self = Some d" and "self_binary_path_list self = Some paths"
  shows "spawned (snd (snd (get_commits sys revision_range self w))) =
     spawned w @ [([''git'', ''-C'', d, ''log''] @ words revision_range @ [''--pretty=raw''],
                   [(''PATH'', join '':'' paths)])]"
  by (simp add: get_commits_constructed [OF assms] Let_def split: spawn_result.split sum.split)

lemma get_branches_result:
  assumes "self_directory self = Some d" and "self_binary_path_list self = Some paths"
  shows "fst (get_branches sys include exclude self w) =
     (case spawn sys (spawned w) [''git'', ''-C'', d, ''branch'', ''--all'']
             [(''PATH'', join '':'' paths)] of
        Not_run e \<Rightarrow> Inl (OtherSubprocessError e)
      | Exited rc out err \<Rightarrow>
          if rc \<noteq> 0
          then Inl (CalledProcessError rc [''git'', ''-C'', d, ''branch'', ''--all''] out err)
          else (case extract_branches sys out of
                  Inl bad \<Rightarrow> Inl (MalformedLogRecord bad)
                | Inr branches \<Rightarrow>
                    (case (case include of
                             None \<Rightarrow> Inr branches
                           | Some pattern \<Rightarrow> filter_branches sys True pattern branches) of
                       Inl e \<Rightarrow> Inl e
                     | Inr branches \<Rightarrow>
                         (case exclude of
                            None \<Rightarrow> Inr branches
                          | Some pattern \<Rightarrow> filter_branches sys False pattern branches))))"
  by (simp add: get_branches_constructed [OF assms] Let_def
        split: spawn_result.split sum.split option.split)

lemma get_branches_spawned:
  assumes "self_directory self = Some d" and "self_binary_path_list self = Some paths"
  shows "spawned (snd (snd (get_branches sys include exclude self w))) =
     spawned w @ [([''git'', ''-C'', d, ''branch'', ''--all''], [(''PATH'', join '':'' paths)])]"
  by (simp add: get_branches_constructed [OF assms] Let_def
        split: spawn_result.split sum.split option.split)

lemma get_commits_twice:
  assumes "self_directory self = Some d" and "self_binary_path_list self = Some paths"
  shows "(case get_commits sys revision_range self w of
            (r1, s1, w1) \<Rightarrow>
              (case get_commits sys revision_range s1 w1 of
                 (r2, s2, w2) \<Rightarrow>
                   s1 = self \<and> s2 = self
                   \<and> spawned w2 = spawned w @
                       [([''git'', ''-C'', d, ''log''] @ words revision_range @ [''--pretty=raw''],
                         [(''PATH'', join '':'' paths)]),
                        ([''git'', ''-C'', d, ''log''] @ words revision_range @ [''--pretty=raw''],
                         [(''PATH'', join '':'' paths)])]
                   \<and> (spawn sys (spawned w1)
                         ([''git'', ''-C'', d, ''log''] @ words revision_range @ [''--pretty=raw''])
                         [(''PATH'', join '':'' paths)] =
                       spawn sys (spawned w)
                         ([''git'', ''-C'', d, ''log''] @ words revision_range @ [''--pretty=raw''])
                         [(''PATH'', join '':'' paths)] \<longrightarrow> r2 = r1)))"
proof -
  obtain r1 s1 w1 where 1: "get_commits sys revision_range self w = (r1, s1, w1)"
    by (cases "get_commits sys revision_range self w") auto
  from 1 get_commits_self [of sys revision_range self w] have s1: "s1 = self" by simp
  obtain r2 s2 w2 where 2: "get_commits sys revision_range self w1 = (r2, s2, w2)"
    by (cases "get_commits sys revision_range self w1") auto
  from 2 get_commits_self [of sys revision_range self w1] have s2: "s2 = self" by simp
  from 1 get_commits_spawned [OF assms, of sys revision_range w]
  have w1: "spawned w1 = spawned w @
      [([''git'', ''-C'', d, ''log''] @ words revision_range @ [''--pretty=raw''],
        [(''PATH'', join '':'' paths)])]" by simp
  from 2 get_commits_spawned [OF assms, of sys revision_range w1]
  have w2: "spawned w2 = spawned w1 @
      [([''git'', ''-C'', d, ''log''] @ words revision_range @ [''--pretty=raw''],
        [(''PATH'', join '':'' paths)])]" by simp
  from 1 get_commits_result [OF assms, of sys revision_range w]
  have r1: "r1 = (case spawn sys (spawned w)
             ([''git'', ''-C'', d, ''log''] @ words revision_range @ [''--pretty=raw''])
             [(''PATH'', join '':'' paths)] of
        Not_run e \<Rightarrow> Inl (OtherSubprocessError e)
      | Exited rc out err \<Rightarrow>
          if rc \<noteq> 0
          then Inl (CalledProcessError rc
                 ([''git'', ''-C'', d, ''log''] @ words revision_range @ [''--pretty=raw'']) out err)
          else (case extract_commits sys out of
                  Inl bad \<Rightarrow> Inl (MalformedLogRecord bad)
                | Inr commits \<Rightarrow> Inr commits))" by simp
  from 2 get_commits_result [OF assms, of sys revision_range w1]
  have r2: "r2 = (case spawn sys (spawned w1)
             ([''git'', ''-C'', d, ''log''] @ words revision_range @ [''--pretty=raw''])
             [(''PATH'', join '':'' paths)] of
        Not_run e \<Rightarrow> Inl (OtherSubprocessError e)
      | Exited rc out err \<Rightarrow>
          if rc \<noteq> 0
          then Inl (CalledProcessError rc
                 ([''git'', ''-C'', d, ''log''] @ words revision_range @ [''--pretty=raw'']) out err)
          else (case extract_commits sys out of
                  Inl bad \<Rightarrow> Inl (MalformedLogRecord bad)
                | Inr commits \<Rightarrow> Inr commits))" by simp
  have eq: "r2 = r1" if "spawn sys (spawned w1)
                         ([''git'', ''-C'', d, ''log''] @ words revision_range @ [''--pretty=raw''])
                         [(''PATH'', join '':'' paths)] =
                       spawn sys (spawned w)
                         ([''git'', ''-C'', d, ''log''] @ words revision_range @ [''--pretty=raw''])
                         [(''PATH'', join '':'' paths)]"
    unfolding r1 r2 that ..
  show ?thesis
    unfolding 1 prod.case s1 2 using s2 w1 w2 eq by simp
qed

lemma get_branches_twice:
  assumes "self_directory self = Some d" and "self_binary_path_list self = Some paths"
  shows "(case get_branches sys include exclude self w of
            (r1, s1, w1) \<Rightarrow>
              (case get_branches sys include exclude s1 w1 of
                 (r2, s2, w2) \<Rightarrow>
                   s1 = self \<and> s2 = self
                   \<and> spawned w2 = spawned w @
                       [([''git'', ''-C'', d, ''branch'', ''--all''], [(''PATH'', join '':'' paths)]),
                        ([''git'', ''-C'', d, ''branch'', ''--all''], [(''PATH'', join '':'' paths)])]
                   \<and> (spawn sys (spawned w1) [''git'', ''-C'', d, ''branch'', ''--all'']
                         [(''PATH'', join '':'' paths)] =
                       spawn sys (spawned w) [''git'', ''-C'', d, ''branch'', ''--all'']
                         [(''PATH'', join '':'' paths)] \<longrightarrow> r2 = r1)))"
proof -
  obtain r1 s1 w1 where 1: "get_branches sys include exclude self w = (r1, s1, w1)"
    by (cases "get_branches sys include exclude self w") auto
  from 1 get_branches_self [of sys "include" "exclude" self w] have s1: "s1 = self" by simp
  obtain r2 s2 w2 where 2: "get_branches sys include exclude self w1 = (r2, s2, w2)"
    by (cases "get_branches sys include exclude self w1") auto
  from 2 get_branches_self [of sys "include" "exclude" self w1] have s2: "s2 = self" by simp
  from 1 get_branches_spawned [OF assms, of sys "include" "exclude" w]
  have w1: "spawned w1 = spawned w @
      [([''git'', ''-C'', d, ''branch'', ''--all''], [(''PATH'', join '':'' paths)])]" by simp
  from 2 get_branches_spawned [OF assms, of sys "include" "exclude" w1]
  have w2: "spawned w2 = spawned w1 @
      [([''git'', ''-C'', d, ''branch'', ''--all''], [(''PATH'', join '':'' paths)])]" by simp
  have eq: "r2 = r1" if "spawn sys (spawned w1) [''git'', ''-C'', d, ''branch'', ''--all'']
                         [(''PATH'', join '':'' paths)] =
                       spawn sys (spawned w) [''git'', ''-C'', d, ''branch'', ''--all'']
                         [(''PATH'', join '':'' paths)]"
  proof -
    have "fst (get_branches sys include exclude self w1) = fst (get_branches sys include exclude self w)"
      unfolding get_branches_result [OF assms] that ..
    with 1 2 show ?thesis by simp
  qed
  show ?thesis
    unfolding 1 prod.case s1 2 using s2 w1 w2 eq by simp
qed

lemma example_get_branches:
  "get_branches example_sys (Some ''^feature/'') (Some ''b$'') example_git example_world =
     (Inr [''feature/a''], example_git,
      \<lparr>spawned = [([''git'', ''-C'', ''/srv/repo'', ''branch'', ''--all''], [(''PATH'', ''/bin:/usr/bin'')])],
        printed = []\<rparr>)"
  unfolding get_branches_parsed [OF example_git_simps example_s example_branches_parsed]
  by (simp add: example_include example_exclude example_world_def Let_def
        del: filter_branches.simps)

section \<open>The claims\<close>

text \<open>
  Claim C2. On a constructed object, \<open>get_commits(revision_range)\<close> makes one request to the
  operating system, for \<open>git -C <directory> log <the tokens of the range> --pretty=raw\<close>; when
  the command exits with code 0, the result is that of \<open>extract_commits\<close> on the captured
  standard output, an error of the parser included. With the empty range the command is
  \<open>git -C <directory> log --pretty=raw\<close>, the whole history.
\<close>

theorem get_commits_runs_log_and_parses:
  assumes "self_directory self = Some d" and "self_binary_path_list self = Some paths"
  shows "spawned (snd (snd (get_commits sys revision_range self w))) =
           spawned w @ [([''git'', ''-C'', d, ''log''] @ words revision_range @ [''--pretty=raw''],
                         [(''PATH'', join '':'' paths)])]
       \<and> (\<forall>out err.
            spawn sys (spawned w)
              ([''git'', ''-C'', d, ''log''] @ words revision_range @ [''--pretty=raw''])
              [(''PATH'', join '':'' paths)] = Exited 0 out err \<longrightarrow>
            fst (get_commits sys revision_range self w) =
              (case extract_commits sys out of
                 Inl bad \<Rightarrow> Inl (MalformedLogRecord bad)
               | Inr commits \<Rightarrow> Inr commits))
       \<and> spawned (snd (snd (get_commits sys [] self w))) =
           spawned w @ [([''git'', ''-C'', d, ''log'', ''--pretty=raw''],
                         [(''PATH'', join '':'' paths)])]"
  by (simp add: get_commits_constructed [OF assms] Let_def words_Nil
           split: spawn_result.split sum.split)

theorem get_commits_runs_log_and_parses_witness:
  "self_directory example_git = Some ''/srv/repo''
   \<and> self_binary_path_list example_git = Some [''/bin'', ''/usr/bin'']
   \<and> spawned (snd (snd (get_commits example_sys [] example_git example_world))) =
       [([''git'', ''-C'', ''/srv/repo'', ''log'', ''--pretty=raw''], [(''PATH'', ''/bin:/usr/bin'')])]
   \<and> fst (get_commits example_sys [] example_git example_world) = Inr [''2b'', ''1a'']"
proof -
  let ?text = "''commit 2b\<newline>tree 4d\<newline>parent 1a\<newline>\<newline>    second\<newline>\<newline>commit 1a\<newline>tree 3c\<newline>\<newline>    first\<newline>''"
  have s: "spawn example_sys (spawned example_world)
             ([''git'', ''-C'', ''/srv/repo'', ''log''] @ words [] @ [''--pretty=raw''])
             [(''PATH'', join '':'' [''/bin'', ''/usr/bin''])] = Exited 0 ?text []"
    by (simp add: example_sys_simps example_world_simps example_spawn_def words_Nil)
  have e: "extract_commits example_sys ?text = Inr [''2b'', ''1a'']"
    by (simp add: example_sys_simps commit_ids_def)
  from get_commits_runs_log_and_parses [OF example_git_simps, of example_sys "[]" example_world] s e
  show ?thesis
    by (simp add: example_git_simps example_world_simps words_Nil)
qed

text \<open>
  Claim C3. On a constructed object, when the log command exits with a non-zero code,
  \<open>get_commits\<close> raises the \<open>CalledProcessError\<close> that \<open>subprocess.run\<close> raised, with the
  exit code, the command and both captured texts; it returns no commit, has made exactly one
  request to the operating system, and has printed the captured standard error.
\<close>

theorem get_commits_propagates_failure:
  assumes "self_directory self = Some d" and "self_binary_path_list self = Some paths"
    and "spawn sys (spawned w)
           ([''git'', ''-C'', d, ''log''] @ words revision_range @ [''--pretty=raw''])
           [(''PATH'', join '':'' paths)] = Exited rc out err"
    and "rc \<noteq> 0"
  shows "get_commits sys revision_range self w =
           (Inl (CalledProcessError rc
                   ([''git'', ''-C'', d, ''log''] @ words revision_range @ [''--pretty=raw'']) out err),
            self,
            w\<lparr>spawned := spawned w @
                 [([''git'', ''-C'', d, ''log''] @ words revision_range @ [''--pretty=raw''],
                   [(''PATH'', join '':'' paths)])],
              printed := printed w @ [err]\<rparr>)
       \<and> fst (subprocess_run sys
                ([''git'', ''-C'', d, ''log''] @ words revision_range @ [''--pretty=raw'']) True
                [(''PATH'', join '':'' paths)] w) =
           Inl (CalledProcessError rc
                  ([''git'', ''-C'', d, ''log''] @ words revision_range @ [''--pretty=raw'']) out err)"
  using assms(3,4)
  by (simp add: get_commits_constructed [OF assms(1,2)] subprocess_run_def Let_def)

theorem get_commits_propagates_failure_witness:
  "get_commits example_sys ''nosuch..branch'' example_git example_world =
     (Inl (CalledProcessError 128
             [''git'', ''-C'', ''/srv/repo'', ''log'', ''nosuch..branch'', ''--pretty=raw''] []
             ''fatal: not a git repository or a bad revision''),
      example_git,
      \<lparr>spawned = [([''git'', ''-C'', ''/srv/repo'', ''log'', ''nosuch..branch'', ''--pretty=raw''],
                    [(''PATH'', ''/bin:/usr/bin'')])],
        printed = [''fatal: not a git repository or a bad revision'']\<rparr>)"
proof -
  have t: "words ''nosuch..branch'' = [''nosuch..branch'']"
    by (simp add: words_nonspace_Cons isspace_def words_Nil)
  have s: "spawn example_sys (spawned example_world)
             ([''git'', ''-C'', ''/srv/repo'', ''log''] @ words ''nosuch..branch'' @ [''--pretty=raw''])
             [(''PATH'', join '':'' [''/bin'', ''/usr/bin''])] =
           Exited 128 [] ''fatal: not a git repository or a bad revision''"
    by (simp add: t example_sys_simps example_world_simps example_spawn_def)
  have n: "(128::int) \<noteq> 0" by simp
  from get_commits_propagates_failure [OF example_git_simps s n]
  show ?thesis
    by (simp add: t example_world_def)
qed

text \<open>
  Claim C1. After a successful listing, \<open>get_branches\<close> with two patterns that compile first
  keeps the parsed names the include pattern matches and then drops those the exclude pattern
  matches. With a regular-expression module that agrees with the fragment, on the parsed
  list \<open>["main", "feature/a", "feature/b", "hotfix/c"]\<close> the include pattern \<open>^feature/\<close>
  gives \<open>["feature/a", "feature/b"]\<close>, and with the exclude pattern \<open>b$\<close> as well the
  result is \<open>["feature/a"]\<close>.
\<close>

theorem get_branches_include_then_exclude:
  assumes "self_directory self = Some d" and "self_binary_path_list self = Some paths"
    and "spawn sys (spawned w) [''git'', ''-C'', d, ''branch'', ''--all'']
           [(''PATH'', join '':'' paths)] = Exited 0 out err"
    and "extract_branches sys out = Inr parsed"
  shows "(\<forall>include exclude rx_in rx_ex.
            re_compile sys include = Some rx_in \<longrightarrow> re_compile sys exclude = Some rx_ex \<longrightarrow>
            fst (get_branches sys (Some include) (Some exclude) self w) =
              Inr (filter (\<lambda>x. \<not> re_search_compiled sys rx_ex x)
                     (filter (\<lambda>x. re_search_compiled sys rx_in x) parsed)))
       \<and> (re_conforms sys \<longrightarrow> parsed = [''main'', ''feature/a'', ''feature/b'', ''hotfix/c''] \<longrightarrow>
            fst (get_branches sys (Some ''^feature/'') None self w) =
              Inr [''feature/a'', ''feature/b'']
          \<and> fst (get_branches sys (Some ''^feature/'') (Some ''b$'') self w) =
              Inr [''feature/a''])"
proof (intro conjI allI impI)
  fix inc exc rx_in rx_ex
  assume "re_compile sys inc = Some rx_in" "re_compile sys exc = Some rx_ex"
  then show "fst (get_branches sys (Some inc) (Some exc) self w) =
      Inr (filter (\<lambda>x. \<not> re_search_compiled sys rx_ex x)
             (filter (\<lambda>x. re_search_compiled sys rx_in x) parsed))"
    by (simp add: get_branches_parsed [OF assms] filter_branches_valid Let_def)
next
  assume c: "re_conforms sys" and p: "parsed = [''main'', ''feature/a'', ''feature/b'', ''hotfix/c'']"
  have i: "filter_branches sys True ''^feature/'' parsed = Inr [''feature/a'', ''feature/b'']"
    unfolding filter_branches_conforms [OF c fragment_include] p
    by (simp add: fragment_search_def)
  have e: "filter_branches sys False ''b$'' [''feature/a'', ''feature/b''] = Inr [''feature/a'']"
    unfolding filter_branches_conforms [OF c fragment_exclude]
    by (simp add: fragment_search_def)
  show "fst (get_branches sys (Some ''^feature/'') None self w) = Inr [''feature/a'', ''feature/b'']"
    unfolding get_branches_parsed [OF assms] by (simp add: i Let_def)
  show "fst (get_branches sys (Some ''^feature/'') (Some ''b$'') self w) = Inr [''feature/a'']"
    unfolding get_branches_parsed [OF assms] by (simp add: i e Let_def del: filter_branches.simps)
qed

theorem get_branches_include_then_exclude_witness:
  "re_conforms example_sys
   \<and> extract_branches example_sys ''* main\<newline>  feature/a\<newline>  feature/b\<newline>  hotfix/c\<newline>'' =
       Inr [''main'', ''feature/a'', ''feature/b'', ''hotfix/c'']
   \<and> fst (get_branches example_sys (Some ''^feature/'') None example_git example_world) =
       Inr [''feature/a'', ''feature/b'']
   \<and> fst (get_branches example_sys (Some ''^feature/'') (Some ''b$'') example_git example_world) =
       Inr [''feature/a'']"
proof -
  from get_branches_include_then_exclude [OF example_git_simps example_s example_branches_parsed]
  have "re_conforms example_sys \<longrightarrow>
      [''main'', ''feature/a'', ''feature/b'', ''hotfix/c''] =
      [''main'', ''feature/a'', ''feature/b'', ''hotfix/c''] \<longrightarrow>
      fst (get_branches example_sys (Some ''^feature/'') None example_git example_world) =
        Inr [''feature/a'', ''feature/b'']
      \<and> fst (get_branches example_sys (Some ''^feature/'') (Some ''b$'') example_git example_world) =
        Inr [''feature/a'']"
    by (rule conjunct2)
  with example_sys_conforms example_branches_parsed show ?thesis by simp
qed

text \<open>
  Claim C4. After a successful listing, \<open>get_branches\<close> with \<open>include=None\<close> and
  \<open>exclude=None\<close> returns the parsed list unchanged, and \<open>include=None\<close> leaves the
  exclusion alone to filter. With a pattern that compiles, a name is kept by \<open>include\<close>, and
  dropped by \<open>exclude\<close>, exactly when the search of that one name finds a match. The search
  is not anchored: with a module that agrees with the fragment and a pattern of ordinary
  characters, the names kept are those in which the pattern occurs at any position.
\<close>

theorem get_branches_none_is_no_filter:
  assumes "self_directory self = Some d" and "self_binary_path_list self = Some paths"
    and "spawn sys (spawned w) [''git'', ''-C'', d, ''branch'', ''--all'']
           [(''PATH'', join '':'' paths)] = Exited 0 out err"
    and "extract_branches sys out = Inr parsed"
  shows "fst (get_branches sys None None self w) = Inr parsed
       \<and> (\<forall>pattern rx. re_compile sys pattern = Some rx \<longrightarrow>
            fst (get_branches sys (Some pattern) None self w) =
              Inr (filter (\<lambda>x. re_search_compiled sys rx x) parsed)
          \<and> fst (get_branches sys None (Some pattern) self w) =
              Inr (filter (\<lambda>x. \<not> re_search_compiled sys rx x) parsed))
       \<and> (re_conforms sys \<longrightarrow>
            (\<forall>pattern. (\<forall>c\<in>set pattern. ordinary c) \<longrightarrow>
               fst (get_branches sys (Some pattern) None self w) =
                 Inr (filter (\<lambda>x. sublist pattern x) parsed)))"
proof (intro conjI allI impI)
  show "fst (get_branches sys None None self w) = Inr parsed"
    by (simp add: get_branches_parsed [OF assms] Let_def)
next
  fix pattern rx
  assume "re_compile sys pattern = Some rx"
  then show "fst (get_branches sys (Some pattern) None self w) =
        Inr (filter (\<lambda>x. re_search_compiled sys rx x) parsed)"
    and "fst (get_branches sys None (Some pattern) self w) =
        Inr (filter (\<lambda>x. \<not> re_search_compiled sys rx x) parsed)"
    by (simp_all add: get_branches_parsed [OF assms] filter_branches_valid Let_def)
next
  fix pattern
  assume "re_conforms sys" and "\<forall>c\<in>set pattern. ordinary c"
  then have "filter_branches sys True pattern parsed =
      Inr (filter (\<lambda>x. fragment_search (map Lit pattern) x = True) parsed)"
    by (intro filter_branches_conforms fragment_of_ordinary)
  then show "fst (get_branches sys (Some pattern) None self w) =
      Inr (filter (\<lambda>x. sublist pattern x) parsed)"
    by (simp add: get_branches_parsed [OF assms] Let_def fragment_search_def search_from_Lit)
qed

theorem get_branches_none_is_no_filter_witness:
  "fst (get_branches example_sys None None example_git example_world) =
     Inr [''main'', ''feature/a'', ''feature/b'', ''hotfix/c'']
   \<and> fst (get_branches example_sys (Some ''fix'') None example_git example_world) =
     Inr [''hotfix/c'']"
proof -
  have o: "\<forall>c\<in>set ''fix''. ordinary c" by (simp add: ordinary_def)
  have f: "filter (\<lambda>x. sublist ''fix'' x) [''main'', ''feature/a'', ''feature/b'', ''hotfix/c''] =
      [''hotfix/c'']"
    by (simp add: sublist_Cons_right)
  from get_branches_none_is_no_filter [OF example_git_simps example_s example_branches_parsed]
    example_sys_conforms o f
  show ?thesis by simp
qed

text \<open>
  Claim C5. Whatever the patterns, a list that \<open>get_branches\<close> returns is a subsequence of
  the list the parser returned for the output of that call: no name is added, no name occurs
  more often than in the parsed list, and the names that stay keep their order.
\<close>

theorem get_branches_subseq:
  assumes "get_branches sys include exclude self w = (Inr branches, self', w')"
  shows "\<exists>p parsed. run sys ''branch --all'' True self w = (Inr p, self', w')
           \<and> extract_branches sys (stdout p) = Inr parsed
           \<and> subseq branches parsed
           \<and> (\<forall>x. count_list branches x \<le> count_list parsed x)"
proof -
  obtain r s1 w1 where r: "run sys ''branch --all'' True self w = (r, s1, w1)"
    by (cases "run sys ''branch --all'' True self w") auto
  with assms obtain p where p: "r = Inr p"
    by (cases r) (auto simp: get_branches_def)
  with assms r obtain parsed where parsed: "extract_branches sys (stdout p) = Inr parsed"
    by (cases "extract_branches sys (stdout p)") (auto simp: get_branches_def)
  let ?inc = "case include of None \<Rightarrow> Inr parsed
     | Some pattern \<Rightarrow> filter_branches sys True pattern parsed"
  from assms r p parsed obtain kept where kept: "?inc = Inr kept"
    by (cases ?inc) (auto simp: get_branches_def)
  then have k: "subseq kept parsed"
    by (cases "include") (auto dest: filter_branches_subseq)
  let ?exc = "case exclude of None \<Rightarrow> Inr kept
     | Some pattern \<Rightarrow> filter_branches sys False pattern kept"
  from assms r p parsed kept have e: "?exc = Inr branches" and "s1 = self'" and "w1 = w'"
    by (cases ?exc; simp add: get_branches_def)+
  from e have "subseq branches kept"
    by (cases "exclude") (auto dest: filter_branches_subseq)
  then have "subseq branches parsed" using k by (rule subseq_order.trans)
  with r p parsed \<open>s1 = self'\<close> \<open>w1 = w'\<close> show ?thesis
    by (auto dest: subseq_count_list)
qed

theorem get_branches_subseq_witness:
  "get_branches example_sys (Some ''^feature/'') (Some ''b$'') example_git example_world =
     (Inr [''feature/a''], example_git,
      \<lparr>spawned = [([''git'', ''-C'', ''/srv/repo'', ''branch'', ''--all''], [(''PATH'', ''/bin:/usr/bin'')])],
        printed = []\<rparr>)
   \<and> (\<exists>p parsed. run example_sys ''branch --all'' True example_git example_world =
          (Inr p, example_git,
           \<lparr>spawned = [([''git'', ''-C'', ''/srv/repo'', ''branch'', ''--all''], [(''PATH'', ''/bin:/usr/bin'')])],
             printed = []\<rparr>)
        \<and> extract_branches example_sys (stdout p) = Inr parsed
        \<and> subseq [''feature/a''] parsed
        \<and> (\<forall>x. count_list [''feature/a''] x \<le> count_list parsed x))"
proof -
  have g: "get_branches example_sys (Some ''^feature/'') (Some ''b$'') example_git example_world =
     (Inr [''feature/a''], example_git,
      \<lparr>spawned = [([''git'', ''-C'', ''/srv/repo'', ''branch'', ''--all''], [(''PATH'', ''/bin:/usr/bin'')])],
        printed = []\<rparr>)"
    unfolding get_branches_parsed [OF example_git_simps example_s example_branches_parsed]
    by (simp add: example_include example_exclude example_world_def Let_def
          del: filter_branches.simps)
  from get_branches_subseq [OF g] g show ?thesis by simp
qed

text \<open>
  Claim C6, as the code has it. A pattern is compiled when it is first applied to a name, so
  an invalid pattern raises \<open>re.error\<close> only if a name reaches it. After a successful
  listing, \<open>get_branches\<close> fails with \<open>re.error\<close> exactly when \<open>include\<close> is invalid and
  the parsed list is not empty, or \<open>exclude\<close> is invalid and at least one name is left after
  the inclusion. \<open>re.error\<close> is none of \<open>MalformedLogRecord\<close>, \<open>CalledProcessError\<close> and the
  other failures of the execution.
\<close>

theorem get_branches_invalid_pattern:
  assumes "self_directory self = Some d" and "self_binary_path_list self = Some paths"
    and "spawn sys (spawned w) [''git'', ''-C'', d, ''branch'', ''--all'']
           [(''PATH'', join '':'' paths)] = Exited 0 out err"
    and "extract_branches sys out = Inr parsed"
  shows "(fst (get_branches sys include exclude self w) = Inl ReError \<longleftrightarrow>
            (\<exists>pattern. include = Some pattern \<and> re_compile sys pattern = None \<and> parsed \<noteq> []) \<or>
            (\<exists>pattern kept. exclude = Some pattern \<and> re_compile sys pattern = None \<and>
               (case include of
                  None \<Rightarrow> Inr parsed
                | Some pattern \<Rightarrow> filter_branches sys True pattern parsed) = Inr kept \<and>
               kept \<noteq> []))
       \<and> (\<forall>bad rc cmd out' err' e.
             ReError \<noteq> MalformedLogRecord bad \<and> ReError \<noteq> CalledProcessError rc cmd out' err' \<and>
             ReError \<noteq> OtherSubprocessError e)"
proof -
  have "fst (get_branches sys include exclude self w) = Inl ReError \<longleftrightarrow>
            (\<exists>pattern. include = Some pattern \<and> re_compile sys pattern = None \<and> parsed \<noteq> []) \<or>
            (\<exists>pattern kept. exclude = Some pattern \<and> re_compile sys pattern = None \<and>
               (case include of
                  None \<Rightarrow> Inr parsed
                | Some pattern \<Rightarrow> filter_branches sys True pattern parsed) = Inr kept \<and>
               kept \<noteq> [])"
  proof (cases "include")
    case None
    show ?thesis
    proof (cases "exclude")
      case None
      with \<open>include = None\<close> show ?thesis
        by (simp add: get_branches_parsed [OF assms] Let_def)
    next
      case (Some pe)
      with \<open>include = None\<close> show ?thesis
        by (cases "re_compile sys pe")
           (simp_all add: get_branches_parsed [OF assms] Let_def filter_branches_valid
              filter_branches_invalid)
    qed
  next
    case (Some pi)
    show ?thesis
    proof (cases "re_compile sys pi")
      case None
      with Some show ?thesis
        by (cases "exclude"; cases "parsed = []")
           (auto simp: get_branches_parsed [OF assms] Let_def filter_branches_invalid
              split: if_splits)
    next
      case rx: (Some rx)
      show ?thesis
      proof (cases "exclude")
        case None
        with Some rx show ?thesis
          by (simp add: get_branches_parsed [OF assms] Let_def filter_branches_valid)
      next
        case pe: (Some pe)
        with Some rx show ?thesis
          by (cases "re_compile sys pe")
             (simp_all add: get_branches_parsed [OF assms] Let_def filter_branches_valid
                filter_branches_invalid)
      qed
    qed
  qed
  then show ?thesis by simp
qed

theorem get_branches_invalid_pattern_witness:
  "re_compile example_sys ''('' = None
   \<and> fst (get_branches example_sys (Some ''('') None example_git example_world) = Inl ReError
   \<and> fst (get_branches example_sys (Some ''^feature/'') (Some ''('') example_git example_world) =
       Inl ReError"
proof -
  have c: "re_compile example_sys ''('' = None"
    by (simp add: example_sys_simps fragment_of_def)
  note t = get_branches_invalid_pattern [OF example_git_simps example_s example_branches_parsed]
  from t [of "Some ''(''" None] c
  have 1: "fst (get_branches example_sys (Some ''('') None example_git example_world) = Inl ReError"
    by simp
  from t [of "Some ''^feature/''" "Some ''(''"] c example_include
  have 2: "fst (get_branches example_sys (Some ''^feature/'') (Some ''('') example_git example_world) =
       Inl ReError"
    by simp
  from c 1 2 show ?thesis by simp
qed

text \<open>
  The claim as stated fails in a repository with no branch: the constructor accepts
  \<open>/srv/new\<close>, the pattern \<open>(\<close> does not compile, and \<open>get_branches\<close> with that pattern as
  \<open>include\<close> returns the empty list without an error.
\<close>

theorem invalid_pattern_goes_unnoticed:
  "init example_sys ''/srv/new'' [] example_world =
     (Inr \<lparr>self_binary_path_list = Some [''/bin'', ''/usr/bin''], self_directory = Some ''/srv/new''\<rparr>,
      \<lparr>spawned = [([''git'', ''-C'', ''/srv/new'', ''rev-parse'', ''--git-dir''],
                    [(''PATH'', ''/bin:/usr/bin'')])],
        printed = []\<rparr>)
   \<and> re_compile example_sys ''('' = None
   \<and> fst (get_branches example_sys (Some ''('') None
            \<lparr>self_binary_path_list = Some [''/bin'', ''/usr/bin''], self_directory = Some ''/srv/new''\<rparr>
            \<lparr>spawned = [([''git'', ''-C'', ''/srv/new'', ''rev-parse'', ''--git-dir''],
                          [(''PATH'', ''/bin:/usr/bin'')])],
              printed = []\<rparr>) = Inr []"
proof (intro conjI)
  show "init example_sys ''/srv/new'' [] example_world =
     (Inr \<lparr>self_binary_path_list = Some [''/bin'', ''/usr/bin''], self_directory = Some ''/srv/new''\<rparr>,
      \<lparr>spawned = [([''git'', ''-C'', ''/srv/new'', ''rev-parse'', ''--git-dir''],
                    [(''PATH'', ''/bin:/usr/bin'')])],
        printed = []\<rparr>)"
    unfolding init_def build_directory_def
    by (simp add: build_binary_path_list_def COMMON_BINARY_PATHS_def example_sys_simps
          rstrip_slash_def run_constructed check_command_tokens example_spawn_def
          example_world_def Let_def)
  show "re_compile example_sys ''('' = None"
    by (simp add: example_sys_simps fragment_of_def)
  show "fst (get_branches example_sys (Some ''('') None
            \<lparr>self_binary_path_list = Some [''/bin'', ''/usr/bin''], self_directory = Some ''/srv/new''\<rparr>
            \<lparr>spawned = [([''git'', ''-C'', ''/srv/new'', ''rev-parse'', ''--git-dir''],
                          [(''PATH'', ''/bin:/usr/bin'')])],
              printed = []\<rparr>) = Inr []"
    unfolding get_branches_def
    by (simp add: run_constructed branch_command_tokens example_sys_simps example_spawn_def
          spec_extract_branches_def Let_def)
qed

text \<open>
  Claim C8. With a non-empty \<open>binary_path\<close> that is a directory, \<open>_build_binary_path_list\<close>
  calls \<open>insert\<close> on \<open>self._binary_path_list\<close>, which \<open>__init__\<close> has just set to \<open>None\<close>:
  the constructor raises \<open>AttributeError\<close> and leaves the world as it was, so no command has
  run and nothing has been printed.
\<close>

theorem init_custom_binary_path_raises:
  assumes "binary_path \<noteq> []" and "isdir sys binary_path"
  shows "build_binary_path_list sys binary_path
           \<lparr>self_binary_path_list = None, self_directory = None\<rparr> w =
           (Inl AttributeError, \<lparr>self_binary_path_list = None, self_directory = None\<rparr>, w)
       \<and> init sys directory binary_path w = (Inl AttributeError, w)"
  using assms by (simp add: init_def build_binary_path_list_def)

theorem init_custom_binary_path_raises_witness:
  "''/opt/git/bin'' \<noteq> [] \<and> isdir example_sys ''/opt/git/bin''
   \<and> init example_sys ''/srv/repo'' ''/opt/git/bin'' example_world = (Inl AttributeError, example_world)"
proof -
  have n: "''/opt/git/bin'' \<noteq> []" by simp
  have d: "isdir example_sys ''/opt/git/bin''" by (simp add: example_sys_simps)
  from init_custom_binary_path_raises [OF n d, where directory = "''/srv/repo''" and w = example_world] n d
  show ?thesis by simp
qed

text \<open>
  Claim C9. \<open>run\<close> makes one request to the operating system, or none when an attribute is
  still \<open>None\<close>. The environment of the request is the single variable \<open>PATH\<close>, the binary
  path list joined with \<open>:\<close>, whatever the caller's environment \<open>environ sys\<close>; on an object
  the constructor returned that is \<open>/bin:/usr/bin\<close>, and so it is for the check the
  constructor itself runs. The tokens are \<open>git\<close>, \<open>-C\<close>, the stored directory and the pieces
  of \<open>re.split(r'\s+', command.strip())\<close>: the whitespace-separated tokens of the command,
  and one empty token for a command of whitespace only.
\<close>

theorem run_sanitized_environment:
  "(\<forall>d paths. self_directory self = Some d \<longrightarrow> self_binary_path_list self = Some paths \<longrightarrow>
      spawned (snd (snd (run sys command check self w))) =
        spawned w @ [([''git'', ''-C'', d] @ re_split_ws (strip command),
                      [(''PATH'', join '':'' paths)])])
   \<and> (self_directory self = None \<or> self_binary_path_list self = None \<longrightarrow>
        spawned (snd (snd (run sys command check self w))) = spawned w)
   \<and> (\<forall>directory binary_path w0 w1.
        init sys directory binary_path w0 = (Inr self, w1) \<longrightarrow>
        self_binary_path_list self = Some [''/bin'', ''/usr/bin'']
        \<and> (\<exists>d. self_directory self = Some d
              \<and> spawned (snd (snd (run sys command check self w))) =
                  spawned w @ [([''git'', ''-C'', d] @ re_split_ws (strip command),
                                [(''PATH'', ''/bin:/usr/bin'')])]))
   \<and> (\<forall>directory binary_path w0 r w1.
        init sys directory binary_path w0 = (r, w1) \<longrightarrow>
        spawned w1 = spawned w0
        \<or> spawned w1 = spawned w0 @
            [([''git'', ''-C'', if directory \<noteq> ''/'' then rstrip_slash directory else directory,
               ''rev-parse'', ''--git-dir''], [(''PATH'', ''/bin:/usr/bin'')])])
   \<and> re_split_ws (strip command) =
       (if \<forall>c\<in>set command. isspace c then [[]] else words command)"
proof -
  have a: "\<forall>d paths. self_directory self = Some d \<longrightarrow> self_binary_path_list self = Some paths \<longrightarrow>
      spawned (snd (snd (run sys command check self w))) =
        spawned w @ [([''git'', ''-C'', d] @ re_split_ws (strip command),
                      [(''PATH'', join '':'' paths)])]"
    by (intro allI impI) (rule run_spawned)
  have b: "self_directory self = None \<or> self_binary_path_list self = None \<longrightarrow>
        spawned (snd (snd (run sys command check self w))) = spawned w"
    by (auto simp: run_unconstructed)
  have c: "\<forall>directory binary_path w0 w1.
        init sys directory binary_path w0 = (Inr self, w1) \<longrightarrow>
        self_binary_path_list self = Some [''/bin'', ''/usr/bin'']
        \<and> (\<exists>d. self_directory self = Some d
              \<and> spawned (snd (snd (run sys command check self w))) =
                  spawned w @ [([''git'', ''-C'', d] @ re_split_ws (strip command),
                                [(''PATH'', ''/bin:/usr/bin'')])])"
  proof (intro allI impI)
    fix directory binary_path w0 w1
    assume "init sys directory binary_path w0 = (Inr self, w1)"
    then have s: "self = \<lparr>self_binary_path_list = Some [''/bin'', ''/usr/bin''],
                 self_directory =
                   Some (if directory \<noteq> ''/'' then rstrip_slash directory else directory)\<rparr>"
      by (rule init_Inr_self)
    have p: "self_binary_path_list self = Some [''/bin'', ''/usr/bin'']"
      by (subst s) simp
    have d: "self_directory self =
        Some (if directory \<noteq> ''/'' then rstrip_slash directory else directory)"
      by (subst s) simp
    from run_spawned [OF d p, of sys command check w] p d
    show "self_binary_path_list self = Some [''/bin'', ''/usr/bin'']
        \<and> (\<exists>d. self_directory self = Some d
              \<and> spawned (snd (snd (run sys command check self w))) =
                  spawned w @ [([''git'', ''-C'', d] @ re_split_ws (strip command),
                                [(''PATH'', ''/bin:/usr/bin'')])])"
      by simp
  qed
  have d: "\<forall>directory binary_path w0 r w1.
        init sys directory binary_path w0 = (r, w1) \<longrightarrow>
        spawned w1 = spawned w0
        \<or> spawned w1 = spawned w0 @
            [([''git'', ''-C'', if directory \<noteq> ''/'' then rstrip_slash directory else directory,
               ''rev-parse'', ''--git-dir''], [(''PATH'', ''/bin:/usr/bin'')])]"
    by (intro allI impI) (rule init_spawned)
  have e: "re_split_ws (strip command) =
       (if \<forall>c\<in>set command. isspace c then [[]] else words command)"
    by (rule re_split_ws_strip)
  show ?thesis by (rule conjI [OF a conjI [OF b conjI [OF c conjI [OF d e]]]])
qed

theorem run_sanitized_environment_witness:
  "init example_sys ''/srv/repo//'' [] example_world =
     (Inr example_git,
      \<lparr>spawned = [([''git'', ''-C'', ''/srv/repo'', ''rev-parse'', ''--git-dir''],
                    [(''PATH'', ''/bin:/usr/bin'')])],
        printed = []\<rparr>)
   \<and> spawned (snd (snd (run example_sys ''  status   -s '' True example_git example_world))) =
       [([''git'', ''-C'', ''/srv/repo'', ''status'', ''-s''], [(''PATH'', ''/bin:/usr/bin'')])]
   \<and> spawned (snd (snd (run example_sys '' '' True example_git example_world))) =
       [([''git'', ''-C'', ''/srv/repo'', []], [(''PATH'', ''/bin:/usr/bin'')])]"
proof -
  have w1: "words ''  status   -s '' = [''status'', ''-s'']"
    by (simp add: words_space_Cons words_nonspace_Cons words_Nil isspace_def)
  have n1: "\<not> (\<forall>c\<in>set ''  status   -s ''. isspace c)" by (simp add: isspace_def)
  have n2: "\<forall>c\<in>set '' ''. isspace c" by (simp add: isspace_def)
  from run_sanitized_environment [where self = example_git and sys = example_sys
      and command = "''  status   -s ''" and check = True and w = example_world]
    example_init n1
  have 1: "spawned (snd (snd (run example_sys ''  status   -s '' True example_git example_world))) =
       [([''git'', ''-C'', ''/srv/repo'', ''status'', ''-s''], [(''PATH'', ''/bin:/usr/bin'')])]"
    by (simp add: example_git_simps example_world_simps w1)
  from run_sanitized_environment [where self = example_git and sys = example_sys
      and command = "'' ''" and check = True and w = example_world]
    example_init n2
  have 2: "spawned (snd (snd (run example_sys '' '' True example_git example_world))) =
       [([''git'', ''-C'', ''/srv/repo'', []], [(''PATH'', ''/bin:/usr/bin'')])]"
    by (simp add: example_git_simps example_world_simps)
  from example_init 1 2 show ?thesis by simp
qed

text \<open>
  Claim C10. The stored directory is the argument without its trailing slashes, and the
  argument itself when it is \<open>/\<close>. When the constructor reaches the check (no custom binary
  path, a \<open>git\<close> binary found) and \<open>git -C <stored directory> rev-parse --git-dir\<close> exits with
  a non-zero code, it raises \<open>NotARepositoryError\<close>. Every object the constructor returns has
  that stored directory, and the check on it has exited with code 0.
\<close>

theorem init_checks_repository:
  "(let d = (if directory \<noteq> ''/'' then rstrip_slash directory else directory);
        argv = [''git'', ''-C'', d, ''rev-parse'', ''--git-dir''];
        env = [(''PATH'', ''/bin:/usr/bin'')]
    in (binary_path = [] \<longrightarrow>
          (binary_shell_independent (isfile sys) COMMON_BINARY_PATHS
             \<or> which sys (environ sys) ''git'' \<noteq> None) \<longrightarrow>
          (\<forall>rc out err. spawn sys (spawned w) argv env = Exited rc out err \<longrightarrow> rc \<noteq> 0 \<longrightarrow>
             fst (init sys directory binary_path w) = Inl (NotARepositoryError d)))
     \<and> (\<forall>self w'. init sys directory binary_path w = (Inr self, w') \<longrightarrow>
          self_directory self = Some d
          \<and> (\<exists>out err. spawn sys (spawned w) argv env = Exited 0 out err)
          \<and> spawned w' = spawned w @ [(argv, env)])
     \<and> (directory = ''/'' \<longrightarrow> d = ''/'')
     \<and> (directory \<noteq> ''/'' \<longrightarrow>
          (\<exists>n. directory = d @ replicate n (CHR ''/'')) \<and> (d = [] \<or> last d \<noteq> CHR ''/'')))"
proof -
  let ?d = "if directory \<noteq> ''/'' then rstrip_slash directory else directory"
  let ?argv = "[''git'', ''-C'', ?d, ''rev-parse'', ''--git-dir'']"
  let ?env = "[(''PATH'', ''/bin:/usr/bin'')]"
  let ?found = "binary_shell_independent (isfile sys) COMMON_BINARY_PATHS
             \<or> which sys (environ sys) ''git'' \<noteq> None"
  have 1: "fst (init sys directory binary_path w) = Inl (NotARepositoryError ?d)"
    if "binary_path = []" and "?found" and "spawn sys (spawned w) ?argv ?env = Exited rc out err"
      and "rc \<noteq> 0" for rc out err
  proof -
    from init_empty_binary_path [OF that(2), of w directory] obtain w1 where
      "init sys directory [] w =
        (let d = ?d;
             self' = \<lparr>self_binary_path_list = Some COMMON_BINARY_PATHS, self_directory = Some d\<rparr>;
             argv = [''git'', ''-C'', d, ''rev-parse'', ''--git-dir''];
             env = [(''PATH'', ''/bin:/usr/bin'')];
             w' = w1\<lparr>spawned := spawned w @ [(argv, env)]\<rparr>
         in case spawn sys (spawned w) argv env of
              Not_run e \<Rightarrow> (Inl (OtherSubprocessError e), w')
            | Exited rc out err \<Rightarrow>
                if rc \<noteq> 0 then (Inl (NotARepositoryError d), w')
                else (Inr self', w'))"
      by blast
    with that(1,3,4) show ?thesis by (simp add: Let_def)
  qed
  have 2: "self_directory self = Some ?d
          \<and> (\<exists>out err. spawn sys (spawned w) ?argv ?env = Exited 0 out err)
          \<and> spawned w' = spawned w @ [(?argv, ?env)]"
    if i: "init sys directory binary_path w = (Inr self, w')" for self w'
  proof -
    have f: "binary_path = [] \<and> ?found"
    proof (rule ccontr)
      assume "\<not> (binary_path = [] \<and> ?found)"
      from init_not_found [OF this, of directory w] i show False by auto
    qed
    from init_empty_binary_path [of sys w directory] f obtain w1 where
      "init sys directory [] w =
        (let d = ?d;
             self' = \<lparr>self_binary_path_list = Some COMMON_BINARY_PATHS, self_directory = Some d\<rparr>;
             argv = [''git'', ''-C'', d, ''rev-parse'', ''--git-dir''];
             env = [(''PATH'', ''/bin:/usr/bin'')];
             w' = w1\<lparr>spawned := spawned w @ [(argv, env)]\<rparr>
         in case spawn sys (spawned w) argv env of
              Not_run e \<Rightarrow> (Inl (OtherSubprocessError e), w')
            | Exited rc out err \<Rightarrow>
                if rc \<noteq> 0 then (Inl (NotARepositoryError d), w')
                else (Inr self', w'))"
      by blast
    with i f show ?thesis
      by (cases "spawn sys (spawned w) ?argv ?env") (auto simp: Let_def split: if_splits)
  qed
  have 3: "(\<exists>n. directory = ?d @ replicate n (CHR ''/'')) \<and> (?d = [] \<or> last ?d \<noteq> CHR ''/'')"
    if "directory \<noteq> ''/''"
    using that rstrip_slash_spec [of directory] by simp
  from 1 have a: "binary_path = [] \<longrightarrow> ?found \<longrightarrow>
      (\<forall>rc out err. spawn sys (spawned w) ?argv ?env = Exited rc out err \<longrightarrow> rc \<noteq> 0 \<longrightarrow>
         fst (init sys directory binary_path w) = Inl (NotARepositoryError ?d))"
    by blast
  from 2 have b: "\<forall>self w'. init sys directory binary_path w = (Inr self, w') \<longrightarrow>
      self_directory self = Some ?d
      \<and> (\<exists>out err. spawn sys (spawned w) ?argv ?env = Exited 0 out err)
      \<and> spawned w' = spawned w @ [(?argv, ?env)]"
    by blast
  have c: "directory = ''/'' \<longrightarrow> ?d = ''/''" by simp
  from 3 have d: "directory \<noteq> ''/'' \<longrightarrow>
      (\<exists>n. directory = ?d @ replicate n (CHR ''/'')) \<and> (?d = [] \<or> last ?d \<noteq> CHR ''/'')"
    by blast
  show ?thesis
    unfolding Let_def by (rule conjI [OF a conjI [OF b conjI [OF c d]]])
qed

theorem init_checks_repository_witness:
  "fst (init example_sys ''/tmp/'' [] example_world) = Inl (NotARepositoryError ''/tmp'')
   \<and> init example_sys ''/srv/repo//'' [] example_world =
       (Inr example_git,
        \<lparr>spawned = [([''git'', ''-C'', ''/srv/repo'', ''rev-parse'', ''--git-dir''],
                      [(''PATH'', ''/bin:/usr/bin'')])],
          printed = []\<rparr>)
   \<and> self_directory example_git = Some ''/srv/repo''
   \<and> (\<exists>out err. spawn example_sys [] [''git'', ''-C'', ''/srv/repo'', ''rev-parse'', ''--git-dir'']
          [(''PATH'', ''/bin:/usr/bin'')] = Exited 0 out err)"
proof -
  have s: "spawn example_sys (spawned example_world)
      [''git'', ''-C'', ''/tmp'', ''rev-parse'', ''--git-dir''] [(''PATH'', ''/bin:/usr/bin'')] =
      Exited 128 [] ''fatal: not a git repository or a bad revision''"
    by (simp add: example_sys_simps example_spawn_def)
  have t: "rstrip_slash ''/tmp/'' = ''/tmp''" "rstrip_slash ''/srv/repo//'' = ''/srv/repo''"
    by (simp_all add: rstrip_slash_def)
  from init_checks_repository [where directory = "''/tmp/''" and binary_path = "[]"
      and sys = example_sys and w = example_world] example_found s
  have 1: "fst (init example_sys ''/tmp/'' [] example_world) = Inl (NotARepositoryError ''/tmp'')"
    by (simp add: Let_def t)
  from init_checks_repository [where directory = "''/srv/repo//''" and binary_path = "[]"
      and sys = example_sys and w = example_world] example_init
  have 2: "self_directory example_git = Some ''/srv/repo''
     \<and> (\<exists>out err. spawn example_sys [] [''git'', ''-C'', ''/srv/repo'', ''rev-parse'', ''--git-dir'']
          [(''PATH'', ''/bin:/usr/bin'')] = Exited 0 out err)"
    by (simp add: Let_def t example_world_simps)
  from 1 2 example_init show ?thesis by simp
qed

text \<open>
  Claim C7. \<open>get_commits\<close> and \<open>get_branches\<close> return the object as they found it, whatever
  happens. On a constructed object each call makes its own request to the operating system,
  and the result of a successful call is the parser's result on the output of that very
  request, in whatever world the call is made. Two calls in a row with the same arguments
  leave the object unchanged, make two requests, and return equal results when the operating
  system gives the second request the answer it gave the first.
\<close>

theorem facade_keeps_no_cache:
  "fst (snd (get_commits sys revision_range self w)) = self
   \<and> fst (snd (get_branches sys include exclude self w)) = self
   \<and> (\<forall>d paths. self_directory self = Some d \<longrightarrow> self_binary_path_list self = Some paths \<longrightarrow>
        (case get_commits sys revision_range self w of
           (r1, s1, w1) \<Rightarrow>
             (case get_commits sys revision_range s1 w1 of
                (r2, s2, w2) \<Rightarrow>
                  s1 = self \<and> s2 = self
                  \<and> spawned w2 = spawned w @
                      [([''git'', ''-C'', d, ''log''] @ words revision_range @ [''--pretty=raw''],
                        [(''PATH'', join '':'' paths)]),
                       ([''git'', ''-C'', d, ''log''] @ words revision_range @ [''--pretty=raw''],
                        [(''PATH'', join '':'' paths)])]
                  \<and> (spawn sys (spawned w1)
                        ([''git'', ''-C'', d, ''log''] @ words revision_range @ [''--pretty=raw''])
                        [(''PATH'', join '':'' paths)] =
                      spawn sys (spawned w)
                        ([''git'', ''-C'', d, ''log''] @ words revision_range @ [''--pretty=raw''])
                        [(''PATH'', join '':'' paths)] \<longrightarrow> r2 = r1)))
      \<and> (case get_branches sys include exclude self w of
            (r1, s1, w1) \<Rightarrow>
              (case get_branches sys include exclude s1 w1 of
                 (r2, s2, w2) \<Rightarrow>
                   s1 = self \<and> s2 = self
                   \<and> spawned w2 = spawned w @
                       [([''git'', ''-C'', d, ''branch'', ''--all''], [(''PATH'', join '':'' paths)]),
                        ([''git'', ''-C'', d, ''branch'', ''--all''], [(''PATH'', join '':'' paths)])]
                   \<and> (spawn sys (spawned w1) [''git'', ''-C'', d, ''branch'', ''--all'']
                         [(''PATH'', join '':'' paths)] =
                       spawn sys (spawned w) [''git'', ''-C'', d, ''branch'', ''--all'']
                         [(''PATH'', join '':'' paths)] \<longrightarrow> r2 = r1)))
      \<and> (\<forall>out err.
            spawn sys (spawned w)
              ([''git'', ''-C'', d, ''log''] @ words revision_range @ [''--pretty=raw''])
              [(''PATH'', join '':'' paths)] = Exited 0 out err \<longrightarrow>
            fst (get_commits sys revision_range self w) =
              (case extract_commits sys out of
                 Inl bad \<Rightarrow> Inl (MalformedLogRecord bad)
               | Inr commits \<Rightarrow> Inr commits))
      \<and> (\<forall>out err.
            spawn sys (spawned w) [''git'', ''-C'', d, ''branch'', ''--all'']
              [(''PATH'', join '':'' paths)] = Exited 0 out err \<longrightarrow>
            fst (get_branches sys None None self w) =
              (case extract_branches sys out of
                 Inl bad \<Rightarrow> Inl (MalformedLogRecord bad)
               | Inr branches \<Rightarrow> Inr branches)))"
proof (intro conjI allI impI)
  show "fst (snd (get_commits sys revision_range self w)) = self"
    by (rule get_commits_self)
  show "fst (snd (get_branches sys include exclude self w)) = self"
    by (rule get_branches_self)
next
  fix d paths
  assume a: "self_directory self = Some d" "self_binary_path_list self = Some paths"
  show "case get_commits sys revision_range self w of
           (r1, s1, w1) \<Rightarrow>
             (case get_commits sys revision_range s1 w1 of
                (r2, s2, w2) \<Rightarrow>
                  s1 = self \<and> s2 = self
                  \<and> spawned w2 = spawned w @
                      [([''git'', ''-C'', d, ''log''] @ words revision_range @ [''--pretty=raw''],
                        [(''PATH'', join '':'' paths)]),
                       ([''git'', ''-C'', d, ''log''] @ words revision_range @ [''--pretty=raw''],
                        [(''PATH'', join '':'' paths)])]
                  \<and> (spawn sys (spawned w1)
                        ([''git'', ''-C'', d, ''log''] @ words revision_range @ [''--pretty=raw''])
                        [(''PATH'', join '':'' paths)] =
                      spawn sys (spawned w)
                        ([''git'', ''-C'', d, ''log''] @ words revision_range @ [''--pretty=raw''])
                        [(''PATH'', join '':'' paths)] \<longrightarrow> r2 = r1))"
    by (rule get_commits_twice [OF a])
  show "case get_branches sys include exclude self w of
            (r1, s1, w1) \<Rightarrow>
              (case get_branches sys include exclude s1 w1 of
                 (r2, s2, w2) \<Rightarrow>
                   s1 = self \<and> s2 = self
                   \<and> spawned w2 = spawned w @
                       [([''git'', ''-C'', d, ''branch'', ''--all''], [(''PATH'', join '':'' paths)]),
                        ([''git'', ''-C'', d, ''branch'', ''--all''], [(''PATH'', join '':'' paths)])]
                   \<and> (spawn sys (spawned w1) [''git'', ''-C'', d, ''branch'', ''--all'']
                         [(''PATH'', join '':'' paths)] =
                       spawn sys (spawned w) [''git'', ''-C'', d, ''branch'', ''--all'']
                         [(''PATH'', join '':'' paths)] \<longrightarrow> r2 = r1))"
    by (rule get_branches_twice [OF a])
  fix out err
  show "fst (get_commits sys revision_range self w) =
              (case extract_commits sys out of
                 Inl bad \<Rightarrow> Inl (MalformedLogRecord bad)
               | Inr commits \<Rightarrow> Inr commits)"
    if "spawn sys (spawned w)
              ([''git'', ''-C'', d, ''log''] @ words revision_range @ [''--pretty=raw''])
              [(''PATH'', join '':'' paths)] = Exited 0 out err"
    unfolding get_commits_result [OF a] that by simp
  show "fst (get_branches sys None None self w) =
              (case extract_branches sys out of
                 Inl bad \<Rightarrow> Inl (MalformedLogRecord bad)
               | Inr branches \<Rightarrow> Inr branches)"
    if "spawn sys (spawned w) [''git'', ''-C'', d, ''branch'', ''--all'']
              [(''PATH'', join '':'' paths)] = Exited 0 out err"
    unfolding get_branches_result [OF a] that by (simp split: sum.split)
qed

theorem facade_keeps_no_cache_witness:
  "(case get_branches example_sys (Some ''^feature/'') (Some ''b$'') example_git example_world of
      (r1, s1, w1) \<Rightarrow>
        (case get_branches example_sys (Some ''^feature/'') (Some ''b$'') s1 w1 of
           (r2, s2, w2) \<Rightarrow>
             r1 = Inr [''feature/a''] \<and> r2 = Inr [''feature/a''] \<and> s1 = example_git
             \<and> s2 = example_git
             \<and> spawned w2 =
                 [([''git'', ''-C'', ''/srv/repo'', ''branch'', ''--all''], [(''PATH'', ''/bin:/usr/bin'')]),
                  ([''git'', ''-C'', ''/srv/repo'', ''branch'', ''--all''], [(''PATH'', ''/bin:/usr/bin'')])]))"
proof -
  obtain r2 s2 w2 where 2:
    "get_branches example_sys (Some ''^feature/'') (Some ''b$'') example_git
       \<lparr>spawned = [([''git'', ''-C'', ''/srv/repo'', ''branch'', ''--all''], [(''PATH'', ''/bin:/usr/bin'')])],
         printed = []\<rparr> = (r2, s2, w2)"
    by (cases "get_branches example_sys (Some ''^feature/'') (Some ''b$'') example_git
       \<lparr>spawned = [([''git'', ''-C'', ''/srv/repo'', ''branch'', ''--all''], [(''PATH'', ''/bin:/usr/bin'')])],
         printed = []\<rparr>") auto
  have same: "spawn example_sys h [''git'', ''-C'', ''/srv/repo'', ''branch'', ''--all'']
                [(''PATH'', join '':'' [''/bin'', ''/usr/bin''])] =
              spawn example_sys (spawned example_world) [''git'', ''-C'', ''/srv/repo'', ''branch'', ''--all'']
                [(''PATH'', join '':'' [''/bin'', ''/usr/bin''])]" for h
    by (simp add: example_sys_simps example_spawn_def)
  note t = facade_keeps_no_cache [of example_sys "[]" example_git example_world
      "Some ''^feature/''" "Some ''b$''", THEN conjunct2, THEN conjunct2, rule_format,
      OF example_git_simps]
  from t [THEN conjunct2, THEN conjunct1]
  have "case get_branches example_sys (Some ''^feature/'') (Some ''b$'') example_git example_world of
            (r1, s1, w1) \<Rightarrow>
              (case get_branches example_sys (Some ''^feature/'') (Some ''b$'') s1 w1 of
                 (r2, s2, w2) \<Rightarrow>
                   s1 = example_git \<and> s2 = example_git
                   \<and> spawned w2 = spawned example_world @
                       [([''git'', ''-C'', ''/srv/repo'', ''branch'', ''--all''],
                         [(''PATH'', join '':'' [''/bin'', ''/usr/bin''])]),
                        ([''git'', ''-C'', ''/srv/repo'', ''branch'', ''--all''],
                         [(''PATH'', join '':'' [''/bin'', ''/usr/bin''])])]
                   \<and> (spawn example_sys (spawned w1) [''git'', ''-C'', ''/srv/repo'', ''branch'', ''--all'']
                         [(''PATH'', join '':'' [''/bin'', ''/usr/bin''])] =
                       spawn example_sys (spawned example_world) [''git'', ''-C'', ''/srv/repo'', ''branch'', ''--all'']
                         [(''PATH'', join '':'' [''/bin'', ''/usr/bin''])] \<longrightarrow> r2 = r1))" .
  then show ?thesis
    unfolding example_get_branches prod.case 2
    using same by (simp add: example_world_simps)
qed

end
